theory Spec2Isabelle
  imports Main "HOL-Library.Char_ord" "HOL-Library.List_Lexorder"
begin

section \<open>Strings and decimal formatting\<close>

text \<open>
  Go strings are byte sequences; \<^typ>\<open>string\<close> is a list of 8-bit characters. Go compares
  strings bytewise and lexicographically, which is the order of \<open>Char_ord\<close> lifted to lists
  by \<open>List_Lexorder\<close>; \<open>sort.Strings\<close> is \<^const>\<open>sort\<close> on that order.
\<close>

definition dq :: char where
  "dq = CHR 0x22"

definition nl :: char where
  "nl = CHR 0x0A"

definition tab :: char where
  "tab = CHR 0x09"

definition cr :: char where
  "cr = CHR 0x0D"

definition digit_char :: "nat \<Rightarrow> char" where
  "digit_char d = ''0123456789'' ! d"

text \<open>\<open>fmt.Sprintf("%d", n)\<close> for a non-negative \<open>n\<close>.\<close>

fun nat_decimal :: "nat \<Rightarrow> string" where
  "nat_decimal n =
     (if n < 10 then [digit_char n] else nat_decimal (n div 10) @ [digit_char (n mod 10)])"

declare nat_decimal.simps [simp del]

text \<open>\<open>fmt.Sprintf("%d", i)\<close> for a signed integer.\<close>

definition Sprintf_d :: "int \<Rightarrow> string" where
  "Sprintf_d i = (if i < 0 then CHR ''-'' # nat_decimal (nat (- i)) else nat_decimal (nat i))"

section \<open>Paths: \<open>path/filepath\<close> on a system whose separator is the slash\<close>

text \<open>\<open>strings.Split(p, "/")\<close>: the pieces between slashes, at least one piece.\<close>

fun cons_hd :: "char \<Rightarrow> string list \<Rightarrow> string list" where
  "cons_hd c [] = [[c]]"
| "cons_hd c (x # xs) = (c # x) # xs"

fun split_sep :: "string \<Rightarrow> string list" where
  "split_sep [] = [[]]"
| "split_sep (c # cs) =
     (if c = CHR ''/'' then [] # split_sep cs else cons_hd c (split_sep cs))"

text \<open>\<open>strings.Join(elems, "/")\<close>.\<close>

fun join_sep :: "string list \<Rightarrow> string" where
  "join_sep [] = []"
| "join_sep [x] = x"
| "join_sep (x # y # ys) = x @ CHR ''/'' # join_sep (y # ys)"

text \<open>
  One component of \<open>filepath.Clean\<close>. The accumulator holds the components kept so far,
  last one first. Empty components and \<open>.\<close> are dropped; \<open>..\<close> removes the last kept
  component, unless there is none to remove: then it is dropped in a rooted path and kept
  in a relative one.
\<close>

fun clean_step :: "bool \<Rightarrow> string list \<Rightarrow> string \<Rightarrow> string list" where
  "clean_step rooted kept c =
     (if c = [] \<or> c = ''.'' then kept
      else if c = ''..'' then
        (case kept of
           [] \<Rightarrow> if rooted then [] else [''..'']
         | k # ks \<Rightarrow> if k = ''..'' then ''..'' # kept else ks)
      else c # kept)"

definition clean_comps :: "bool \<Rightarrow> string list \<Rightarrow> string list" where
  "clean_comps rooted cs = rev (foldl (clean_step rooted) [] cs)"

definition filepath_Clean :: "string \<Rightarrow> string" where
  "filepath_Clean p =
     (if p = [] then ''.''
      else
        let rooted = (hd p = CHR ''/'');
            out = join_sep (clean_comps rooted (split_sep p))
        in if rooted then CHR ''/'' # out
           else if out = [] then ''.'' else out)"

text \<open>
  \<open>filepath.Join\<close>: leading empty elements are skipped, the rest is joined with slashes
  and cleaned; with no non-empty element the result is the empty string.
\<close>

definition filepath_Join :: "string list \<Rightarrow> string" where
  "filepath_Join elem =
     (case dropWhile (\<lambda>e. e = []) elem of
        [] \<Rightarrow> []
      | e # es \<Rightarrow> filepath_Clean (join_sep (e # es)))"

section \<open>The file system\<close>

text \<open>
  The handlers reach the disk through \<open>os.Stat\<close>, \<open>os.MkdirAll\<close>, \<open>os.Create\<close>,
  \<open>os.OpenFile\<close>, \<open>os.ReadFile\<close> and writes to an open file. The disk is a tree of
  directories and regular files, addressed by the list of path components below the
  working directory; every call is also recorded, so that "no file-system access" is a
  statement about the state.
\<close>

datatype node = Dir | File string

datatype errno = ENOENT | ENOTDIR | EISDIR

datatype syscall =
    SysStat string
  | SysMkdirAll string
  | SysCreate string
  | SysOpenFile string
  | SysReadFile string
  | SysFstat "string list"
  | SysWrite "string list" string

record world =
  nodes :: "string list \<rightharpoonup> node"
  calls :: "syscall list"

definition sys :: "syscall \<Rightarrow> world \<Rightarrow> world" where
  "sys c w = w\<lparr>calls := calls w @ [c]\<rparr>"

text \<open>
  The components a path names: an absolute path starts with the component \<open>/\<close>. Every
  path the handlers pass is a result of \<open>filepath.Join\<close> and so is clean already.
\<close>

definition path_key :: "string \<Rightarrow> string list" where
  "path_key p =
     (if p \<noteq> [] \<and> hd p = CHR ''/'' then ''/'' # clean_comps True (split_sep p)
      else clean_comps False (split_sep p))"

text \<open>
  The working directory (no component), its ancestors (only \<open>..\<close> components) and the
  root are directories that always exist.
\<close>

definition node_at :: "world \<Rightarrow> string list \<Rightarrow> node option" where
  "node_at w k = (if list_all (\<lambda>c. c = ''..'') k \<or> k = [''/''] then Some Dir else nodes w k)"

text \<open>
  Path resolution, one component at a time: a missing component is \<open>ENOENT\<close>, a regular
  file in the place of a directory is \<open>ENOTDIR\<close>.
\<close>

fun walk :: "world \<Rightarrow> string list \<Rightarrow> string list \<Rightarrow> errno + node" where
  "walk w pre [] = (case node_at w pre of None \<Rightarrow> Inl ENOENT | Some n \<Rightarrow> Inr n)"
| "walk w pre (c # cs) =
     (case node_at w pre of
        None \<Rightarrow> Inl ENOENT
      | Some (File b) \<Rightarrow> Inl ENOTDIR
      | Some Dir \<Rightarrow> walk w (pre @ [c]) cs)"

definition os_Stat :: "world \<Rightarrow> string \<Rightarrow> (errno + node) \<times> world" where
  "os_Stat w p = (walk w [] (path_key p), sys (SysStat p) w)"

text \<open>\<open>os.IsNotExist\<close> holds of \<open>ENOENT\<close> alone.\<close>

definition os_IsNotExist :: "errno option \<Rightarrow> bool" where
  "os_IsNotExist err = (err = Some ENOENT)"

text \<open>
  \<open>os.MkdirAll\<close>: every missing directory on the way is created; a directory that exists
  is left alone; a regular file on the way is an error. Whatever lies below a regular
  file or a missing directory is missing too, so nothing has been created when the error
  is met.
\<close>

fun mkdir_all :: "world \<Rightarrow> string list \<Rightarrow> string list \<Rightarrow> errno + world" where
  "mkdir_all w pre [] = Inr w"
| "mkdir_all w pre (c # cs) =
     (case node_at w (pre @ [c]) of
        Some (File b) \<Rightarrow> Inl ENOTDIR
      | Some Dir \<Rightarrow> mkdir_all w (pre @ [c]) cs
      | None \<Rightarrow> mkdir_all (w\<lparr>nodes := (nodes w)(pre @ [c] \<mapsto> Dir)\<rparr>) (pre @ [c]) cs)"

definition os_MkdirAll :: "world \<Rightarrow> string \<Rightarrow> (errno + unit) \<times> world" where
  "os_MkdirAll w p =
     (case mkdir_all w [] (path_key p) of
        Inl e \<Rightarrow> (Inl e, sys (SysMkdirAll p) w)
      | Inr w' \<Rightarrow> (Inr (), sys (SysMkdirAll p) w'))"

text \<open>
  Opening a file for writing with \<open>O_CREATE\<close>: the parent must be a directory and the
  path must not be one; a missing file is created empty. With \<open>O_TRUNC\<close> an existing file
  is emptied. The handle is the file's place in the tree.
\<close>

definition open_write :: "bool \<Rightarrow> world \<Rightarrow> string list \<Rightarrow> errno + string list \<times> world" where
  "open_write trunc w k =
     (case walk w [] (butlast k) of
        Inl e \<Rightarrow> Inl e
      | Inr (File b) \<Rightarrow> Inl ENOTDIR
      | Inr Dir \<Rightarrow>
          (case node_at w k of
             Some Dir \<Rightarrow> Inl EISDIR
           | Some (File b) \<Rightarrow>
               Inr (k, if trunc then w\<lparr>nodes := (nodes w)(k \<mapsto> File [])\<rparr> else w)
           | None \<Rightarrow> Inr (k, w\<lparr>nodes := (nodes w)(k \<mapsto> File [])\<rparr>)))"

text \<open>\<open>os.Create(p)\<close> is \<open>os.OpenFile(p, O_RDWR|O_CREATE|O_TRUNC, 0666)\<close>.\<close>

definition os_Create :: "world \<Rightarrow> string \<Rightarrow> (errno + string list) \<times> world" where
  "os_Create w p =
     (case open_write True w (path_key p) of
        Inl e \<Rightarrow> (Inl e, sys (SysCreate p) w)
      | Inr (h, w') \<Rightarrow> (Inr h, sys (SysCreate p) w'))"

text \<open>\<open>os.OpenFile(p, O_APPEND|O_CREATE|O_WRONLY, 0644)\<close>.\<close>

definition os_OpenFile_append :: "world \<Rightarrow> string \<Rightarrow> (errno + string list) \<times> world" where
  "os_OpenFile_append w p =
     (case open_write False w (path_key p) of
        Inl e \<Rightarrow> (Inl e, sys (SysOpenFile p) w)
      | Inr (h, w') \<Rightarrow> (Inr h, sys (SysOpenFile p) w'))"

text \<open>\<open>file.Stat()\<close> followed by \<open>info.Size()\<close>.\<close>

definition file_Stat_Size :: "world \<Rightarrow> string list \<Rightarrow> (errno + nat) \<times> world" where
  "file_Stat_Size w h =
     (case nodes w h of
        Some (File b) \<Rightarrow> (Inr (length b), sys (SysFstat h) w)
      | _ \<Rightarrow> (Inl ENOENT, sys (SysFstat h) w))"

text \<open>
  Writing to a handle opened by \<open>os.Create\<close> (the file is empty and the offset follows
  the writes) or with \<open>O_APPEND\<close>: the bytes go to the end of the file.
\<close>

definition file_Write :: "world \<Rightarrow> string list \<Rightarrow> string \<Rightarrow> (errno + unit) \<times> world" where
  "file_Write w h bytes =
     (case nodes w h of
        Some (File b) \<Rightarrow>
          (Inr (), sys (SysWrite h bytes) (w\<lparr>nodes := (nodes w)(h \<mapsto> File (b @ bytes))\<rparr>))
      | _ \<Rightarrow> (Inl ENOENT, sys (SysWrite h bytes) w))"

definition os_ReadFile :: "world \<Rightarrow> string \<Rightarrow> (errno + string) \<times> world" where
  "os_ReadFile w p =
     (case walk w [] (path_key p) of
        Inl e \<Rightarrow> (Inl e, sys (SysReadFile p) w)
      | Inr Dir \<Rightarrow> (Inl EISDIR, sys (SysReadFile p) w)
      | Inr (File b) \<Rightarrow> (Inr b, sys (SysReadFile p) w))"

text \<open>
  \<^verbatim>\<open>func fileExists(path string) bool { _, err := os.Stat(path); return !os.IsNotExist(err) }\<close>
\<close>

definition fileExists :: "world \<Rightarrow> string \<Rightarrow> bool \<times> world" where
  "fileExists w path =
     (case os_Stat w path of
        (Inl err, w') \<Rightarrow> (\<not> os_IsNotExist (Some err), w')
      | (Inr info, w') \<Rightarrow> (\<not> os_IsNotExist None, w'))"

section \<open>The libraries the handlers call\<close>

text \<open>
  JSON documents as \<open>encoding/json\<close> sees them. An object keeps its members in the order of
  the text.
\<close>

datatype json =
    JNull
  | JBool bool
  | JNumber string
  | JString string
  | JArray "json list"
  | JObject "(string \<times> json) list"

text \<open>
  A parsed \<open>text/template\<close>: literal text and actions \<open>{{ .key }}\<close> that print the entry of
  the data map under \<open>key\<close>.
\<close>

datatype piece = Text string | Action string

text \<open>
  The serialisation routines of the standard library are not part of the repository; the
  handlers take them as a parameter:
  \<^item> \<open>json_parse\<close>: the document a text denotes, \<open>None\<close> for a syntax error
    (the syntax check of \<open>json.Unmarshal\<close>);
  \<^item> \<open>json_Marshal\<close>: \<open>json.Marshal\<close> of a decoded document (compact text);
  \<^item> \<open>json_Encode\<close>: what \<open>Encoder.Encode\<close> writes for a document after
    \<open>SetIndent(prefix, indent)\<close>;
  \<^item> \<open>template_Parse\<close>: the parsed form of a template text, \<open>None\<close> when it does not
    parse.
\<close>

record libs =
  json_parse :: "string \<Rightarrow> json option"
  json_Marshal :: "json \<Rightarrow> string"
  json_Encode :: "string \<Rightarrow> string \<Rightarrow> json \<Rightarrow> string"
  template_Parse :: "string \<Rightarrow> piece list option"

datatype json_error = SyntaxError | UnmarshalTypeError

text \<open>
  \<open>json.Unmarshal(data, &m)\<close> with \<open>m\<close> of type \<open>map[string]interface{}\<close>: an object is
  decoded, \<open>null\<close> leaves the nil map, any other document is a type error.
\<close>

definition json_Unmarshal_map :: "libs \<Rightarrow> string \<Rightarrow> json_error + json" where
  "json_Unmarshal_map L data =
     (case json_parse L data of
        None \<Rightarrow> Inl SyntaxError
      | Some (JObject kvs) \<Rightarrow> Inr (JObject kvs)
      | Some JNull \<Rightarrow> Inr JNull
      | Some other \<Rightarrow> Inl UnmarshalTypeError)"

text \<open>
  One array element decoded into a string of a \<open>[]string\<close>: a string is stored, \<open>null\<close>
  leaves the zero value, anything else leaves the zero value and is reported as a type
  error once decoding has finished.
\<close>

fun string_element :: "json \<Rightarrow> string" where
  "string_element (JString s) = s"
| "string_element other = []"

fun string_element_ok :: "json \<Rightarrow> bool" where
  "string_element_ok (JString s) = True"
| "string_element_ok JNull = True"
| "string_element_ok other = False"

text \<open>
  \<open>json.Unmarshal(data, &v)\<close> with \<open>v\<close> of type \<open>[]string\<close>, as the error and the new
  value of \<open>v\<close>. Invalid text is rejected before anything is stored; \<open>null\<close> stores the nil
  slice; an array replaces the slice; a document of another kind leaves \<open>v\<close> as it was.
\<close>

definition json_Unmarshal_strings ::
  "libs \<Rightarrow> string \<Rightarrow> string list \<Rightarrow> json_error option \<times> string list" where
  "json_Unmarshal_strings L data v =
     (case json_parse L data of
        None \<Rightarrow> (Some SyntaxError, v)
      | Some JNull \<Rightarrow> (None, [])
      | Some (JArray xs) \<Rightarrow>
          (if list_all string_element_ok xs then None else Some UnmarshalTypeError,
           map string_element xs)
      | Some other \<Rightarrow> (Some UnmarshalTypeError, v))"

text \<open>
  Executing a parsed template on a \<open>map[string]interface{}\<close> of strings: an action prints
  the entry, and \<open><no value>\<close> for a key the map lacks. Templates of these two kinds of
  pieces execute without error.
\<close>

fun exec_piece :: "(string \<rightharpoonup> string) \<Rightarrow> piece \<Rightarrow> string" where
  "exec_piece data (Text t) = t"
| "exec_piece data (Action key) = (case data key of None \<Rightarrow> ''<no value>'' | Some v \<Rightarrow> v)"

datatype template_error = ParseError | ExecError

definition template_Execute ::
  "piece list \<Rightarrow> (string \<rightharpoonup> string) \<Rightarrow> template_error + string" where
  "template_Execute t data = Inr (concat (map (exec_piece data) t))"

subsection \<open>\<open>encoding/csv\<close>: one record as the writer emits it\<close>

text \<open>
  \<open>Writer.Write\<close> with the default comma and \<open>UseCRLF = false\<close>: fields are joined by
  commas and ended by a newline. A field is quoted when it is \<open>\.\<close>, contains a comma, a
  quote, a carriage return or a newline, or starts with a space character; inside the
  quotes every quote is doubled.
\<close>

definition space_prefixes :: "string list" where
  "space_prefixes =
     [[tab], [nl], [CHR 0x0B], [CHR 0x0C], [cr], '' '',
      [CHR 0xC2, CHR 0x85], [CHR 0xC2, CHR 0xA0], [CHR 0xE1, CHR 0x9A, CHR 0x80],
      [CHR 0xE2, CHR 0x80, CHR 0x80], [CHR 0xE2, CHR 0x80, CHR 0x81],
      [CHR 0xE2, CHR 0x80, CHR 0x82], [CHR 0xE2, CHR 0x80, CHR 0x83],
      [CHR 0xE2, CHR 0x80, CHR 0x84], [CHR 0xE2, CHR 0x80, CHR 0x85],
      [CHR 0xE2, CHR 0x80, CHR 0x86], [CHR 0xE2, CHR 0x80, CHR 0x87],
      [CHR 0xE2, CHR 0x80, CHR 0x88], [CHR 0xE2, CHR 0x80, CHR 0x89],
      [CHR 0xE2, CHR 0x80, CHR 0x8A], [CHR 0xE2, CHR 0x80, CHR 0xA8],
      [CHR 0xE2, CHR 0x80, CHR 0xA9], [CHR 0xE2, CHR 0x80, CHR 0xAF],
      [CHR 0xE2, CHR 0x81, CHR 0x9F], [CHR 0xE3, CHR 0x80, CHR 0x80]]"

definition starts_with :: "string \<Rightarrow> string \<Rightarrow> bool" where
  "starts_with s p = (take (length p) s = p)"

definition fieldNeedsQuotes :: "string \<Rightarrow> bool" where
  "fieldNeedsQuotes field =
     (if field = [] then False
      else if field = [CHR 0x5C, CHR ''.''] then True
      else if list_ex (\<lambda>c. c = nl \<or> c = cr \<or> c = dq \<or> c = CHR '','') field then True
      else list_ex (starts_with field) space_prefixes)"

fun csv_quoted :: "string \<Rightarrow> string" where
  "csv_quoted [] = []"
| "csv_quoted (c # cs) = (if c = dq then dq # dq # csv_quoted cs else c # csv_quoted cs)"

definition csv_field :: "string \<Rightarrow> string" where
  "csv_field field = (if fieldNeedsQuotes field then dq # csv_quoted field @ [dq] else field)"

fun join_comma :: "string list \<Rightarrow> string" where
  "join_comma [] = []"
| "join_comma [x] = x"
| "join_comma (x # y # ys) = x @ CHR '','' # join_comma (y # ys)"

definition csv_record :: "string list \<Rightarrow> string" where
  "csv_record row = join_comma (map csv_field row) @ [nl]"

text \<open>
  The writer collects its output in a buffer, which the first argument stands for; the
  result is the buffer after the record. Writing into the buffer reports no error.
\<close>

definition csv_Write :: "string \<Rightarrow> string list \<Rightarrow> errno + string" where
  "csv_Write buf row = Inr (buf @ csv_record row)"

section \<open>The data model\<close>

text \<open>
  \<^verbatim>\<open>
  type Field struct {
      Label       string `json:"label" validate:"required"`
      Type        string `json:"type" validate:"required,fieldtype"`
      Name        string `json:"name" validate:"required,alphanum"`
      Placeholder string `json:"placeholder"`
  }
  type Form struct {
      Title  string  `json:"title" validate:"required"`
      Fields []Field `json:"fields" validate:"required,dive"`
  }
  \<close>
  A slice is either nil (\<open>None\<close>: the member was absent or \<open>null\<close> in the request) or a
  list, possibly empty.
\<close>

record Field =
  Label :: string
  Type :: string
  Name :: string
  Placeholder :: string

record Form =
  Title :: string
  Fields :: "Field list option"

record APPConfig =
  Host :: string
  Port :: string
  Domain :: string

record Config =
  APP :: APPConfig
  ClientKeys :: string

text \<open>The document \<open>encoding/json\<close> produces for a form, member by member of the tags.\<close>

definition Field_json :: "Field \<Rightarrow> json" where
  "Field_json f =
     JObject [(''label'', JString (Label f)), (''type'', JString (Type f)),
              (''name'', JString (Name f)), (''placeholder'', JString (Placeholder f))]"

definition Form_json :: "Form \<Rightarrow> json" where
  "Form_json form =
     JObject [(''title'', JString (Title form)),
              (''fields'', case Fields form of
                             None \<Rightarrow> JNull
                           | Some fs \<Rightarrow> JArray (map Field_json fs))]"

section \<open>Validation\<close>

definition validFieldTypes :: "string \<rightharpoonup> bool" where
  "validFieldTypes =
     [''text'' \<mapsto> True, ''email'' \<mapsto> True, ''textarea'' \<mapsto> True,
      ''number'' \<mapsto> True, ''date'' \<mapsto> True, ''checkbox'' \<mapsto> True]"

text \<open>
  \<^verbatim>\<open>
  func fieldTypeValidator(fl validator.FieldLevel) bool {
      fieldType := fl.Field().String()
      _, valid := validFieldTypes[fieldType]
      return valid
  }
  \<close>
\<close>

definition fieldTypeValidator :: "string \<Rightarrow> bool" where
  "fieldTypeValidator fieldType = (validFieldTypes fieldType \<noteq> None)"

text \<open>
  The tags of \<open>go-playground/validator\<close>: \<open>required\<close> holds of a string that is not empty
  and of a slice that is not nil; \<open>alphanum\<close> is the pattern \<open>^[a-zA-Z0-9]+$\<close>; \<open>dive\<close>
  validates every element of the slice. The tags of a member are tried in order and the
  first that fails is reported; all members are visited.
\<close>

definition is_alnum :: "char \<Rightarrow> bool" where
  "is_alnum c =
     ((CHR ''a'' \<le> c \<and> c \<le> CHR ''z'') \<or> (CHR ''A'' \<le> c \<and> c \<le> CHR ''Z'')
      \<or> (CHR ''0'' \<le> c \<and> c \<le> CHR ''9''))"

definition alphanum :: "string \<Rightarrow> bool" where
  "alphanum s = (s \<noteq> [] \<and> list_all is_alnum s)"

datatype FieldError = FieldError (fe_ns: string) (fe_field: string) (fe_tag: string)

definition validate_Field :: "string \<Rightarrow> Field \<Rightarrow> FieldError list" where
  "validate_Field prefix f =
     (if Label f = [] then [FieldError (prefix @ ''.Label'') ''Label'' ''required''] else [])
     @ (if Type f = [] then [FieldError (prefix @ ''.Type'') ''Type'' ''required'']
        else if \<not> fieldTypeValidator (Type f)
        then [FieldError (prefix @ ''.Type'') ''Type'' ''fieldtype'']
        else [])
     @ (if Name f = [] then [FieldError (prefix @ ''.Name'') ''Name'' ''required'']
        else if \<not> alphanum (Name f)
        then [FieldError (prefix @ ''.Name'') ''Name'' ''alphanum'']
        else [])"

fun dive :: "nat \<Rightarrow> Field list \<Rightarrow> FieldError list" where
  "dive i [] = []"
| "dive i (f # fs) =
     validate_Field (''Form.Fields['' @ nat_decimal i @ '']'') f @ dive (Suc i) fs"

text \<open>\<open>CustomValidator.Validate\<close>, that is \<open>validator.Struct\<close>: the failures found.\<close>

definition Validate :: "Form \<Rightarrow> FieldError list" where
  "Validate form =
     (if Title form = [] then [FieldError ''Form.Title'' ''Title'' ''required''] else [])
     @ (case Fields form of
          None \<Rightarrow> [FieldError ''Form.Fields'' ''Fields'' ''required'']
        | Some fs \<Rightarrow> dive 0 fs)"

text \<open>\<open>err.Error()\<close> of the validation failures: one line each.\<close>

definition sq :: char where
  "sq = CHR 0x27"

definition FieldError_text :: "FieldError \<Rightarrow> string" where
  "FieldError_text e =
     ''Key: '' @ [sq] @ fe_ns e @ [sq] @ '' Error:Field validation for '' @ [sq] @ fe_field e
     @ [sq] @ '' failed on the '' @ [sq] @ fe_tag e @ [sq] @ '' tag''"

fun join_lines :: "string list \<Rightarrow> string" where
  "join_lines [] = []"
| "join_lines [x] = x"
| "join_lines (x # y # ys) = x @ nl # join_lines (y # ys)"

definition Error_text :: "FieldError list \<Rightarrow> string" where
  "Error_text errs = join_lines (map FieldError_text errs)"

section \<open>Responses\<close>

text \<open>
  \<open>c.JSON(status, map[string]string{...})\<close>, \<open>c.JSON(status, text)\<close> and
  \<open>c.HTML(status, text)\<close>.
\<close>

datatype body = JSON_map "(string \<times> string) list" | JSON_string string | HTML string

type_synonym response = "nat \<times> body"

definition message :: "string \<Rightarrow> body" where
  "message m = JSON_map [(''message'', m)]"

definition failedMissingMandatoryParameterMsg :: body where
  "failedMissingMandatoryParameterMsg = message ''Missing mandatory parameter''"

definition failedNotfoundMsg :: body where
  "failedNotfoundMsg = message ''Failed get form because the form not found or no longer exists''"

definition InternalServerError :: response where
  "InternalServerError = (500, JSON_string ''Internal Server Error'')"

section \<open>The access gate\<close>

text \<open>\<open>Header.Get\<close> gives the empty string for a header the request lacks.\<close>

definition Header_Get :: "string option \<Rightarrow> string" where
  "Header_Get h = (case h of None \<Rightarrow> [] | Some v \<Rightarrow> v)"

text \<open>
  \<^verbatim>\<open>
  for _, v := range allowedClientKeys {
      if clientKey == v { c.Set("clientKey", clientKey); return next(c) }
  }
  \<close>
  No handler reads the value that \<open>c.Set\<close> stores in the request context.
\<close>

fun key_allowed :: "string \<Rightarrow> string list \<Rightarrow> bool" where
  "key_allowed clientKey [] = False"
| "key_allowed clientKey (v # vs) = (if clientKey = v then True else key_allowed clientKey vs)"

definition clientKeyMiddleware ::
  "string list \<Rightarrow> (world \<Rightarrow> response \<times> world) \<Rightarrow> string option \<Rightarrow> world \<Rightarrow> response \<times> world"
where
  "clientKeyMiddleware allowedClientKeys next hdr w =
     (let clientKey = Header_Get hdr in
      if clientKey = [] then ((403, message ''x-client-key header is required''), w)
      else if key_allowed clientKey allowedClientKeys then next w
      else ((403, message ''key is not found''), w))"

text \<open>
  Start-up: \<open>allowedClientKeys = make([]string, 0)\<close>, then
  \<open>json.Unmarshal([]byte(conf.ClientKeys), &allowedClientKeys)\<close> with the error dropped.
\<close>

definition load_allowedClientKeys :: "libs \<Rightarrow> Config \<Rightarrow> string list" where
  "load_allowedClientKeys L conf = snd (json_Unmarshal_strings L (ClientKeys conf) [])"

section \<open>Helpers of \<open>main.go\<close>\<close>

text \<open>
  \<^verbatim>\<open>
  func makeHTML(templateFileName string, data interface{}) (string, error) {
      t, err := template.ParseFiles(templateFileName)
      if err != nil { return "", err }
      buf := new(bytes.Buffer)
      if err = t.Execute(buf, data); err != nil { return "", err }
      return buf.String(), nil
  }
  \<close>
\<close>

datatype error = IOError errno | JSONError json_error | TemplateError template_error

definition makeHTML ::
  "libs \<Rightarrow> world \<Rightarrow> string \<Rightarrow> (string \<rightharpoonup> string) \<Rightarrow> (error + string) \<times> world" where
  "makeHTML L w templateFileName data =
     (case os_ReadFile w templateFileName of
        (Inl e, w') \<Rightarrow> (Inl (IOError e), w')
      | (Inr text, w') \<Rightarrow>
          (case template_Parse L text of
             None \<Rightarrow> (Inl (TemplateError ParseError), w')
           | Some t \<Rightarrow>
               (case template_Execute t data of
                  Inl err \<Rightarrow> (Inl (TemplateError err), w')
                | Inr buf \<Rightarrow> (Inr buf, w'))))"

text \<open>
  \<^verbatim>\<open>
  func loadJSON(path string) (map[string]interface{}, error) {
      var form map[string]interface{}
      file, err := os.ReadFile(path)
      if err != nil { return nil, err }
      err = json.Unmarshal(file, &form)
      if err != nil { return nil, err }
      return form, nil
  }
  \<close>
\<close>

definition loadJSON :: "libs \<Rightarrow> world \<Rightarrow> string \<Rightarrow> (error + json) \<times> world" where
  "loadJSON L w path =
     (case os_ReadFile w path of
        (Inl e, w') \<Rightarrow> (Inl (IOError e), w')
      | (Inr file, w') \<Rightarrow>
          (case json_Unmarshal_map L file of
             Inl e \<Rightarrow> (Inl (JSONError e), w')
           | Inr form \<Rightarrow> (Inr form, w')))"

subsection \<open>Go maps\<close>

text \<open>
  A \<open>map[string]string\<close> is a finite partial function. Reading a missing key gives the
  empty string. A \<open>range\<close> loop visits every key once, in an order the language leaves
  open and that may differ from one loop to the next: each loop of the model takes the
  order it runs in as an argument, and \<open>range_order m ks\<close> says that \<open>ks\<close> is an order
  a loop over \<open>m\<close> can take.
\<close>

definition index :: "(string \<rightharpoonup> string) \<Rightarrow> string \<Rightarrow> string" where
  "index m key = (case m key of None \<Rightarrow> [] | Some v \<Rightarrow> v)"

definition range_order :: "(string \<rightharpoonup> string) \<Rightarrow> string list \<Rightarrow> bool" where
  "range_order m ks = (distinct ks \<and> set ks = dom m)"

text \<open>
  \<^verbatim>\<open>
  // sortByKey sorts the input map by its keys and returns a new map with the sorted order.
  func sortByKey(in map[string]string) map[string]string {
      keys := make([]string, 0, len(in))
      for key := range in { keys = append(keys, key) }
      sort.Strings(keys)
      out := make(map[string]string)
      for _, key := range keys { out[key] = in[key] }
      return out
  }
  \<close>
  The first argument is the order of the loop over \<open>in\<close>.
\<close>

definition sortByKey :: "string list \<Rightarrow> (string \<rightharpoonup> string) \<Rightarrow> (string \<rightharpoonup> string)" where
  "sortByKey range_in inp =
     (let keys = foldl (\<lambda>keys key. keys @ [key]) [] range_in;
          keys = sort keys;
          out = foldl (\<lambda>out key. out(key \<mapsto> index inp key)) Map.empty keys
      in out)"

section \<open>The handlers registered by \<open>registerPath\<close>\<close>

subsection \<open>\<open>POST /api/save-form\<close>\<close>

text \<open>
  The request body arrives through \<open>c.Bind\<close>: \<open>None\<close> when binding fails, the bound form
  otherwise. \<open>now\<close> is \<open>time.Now().UnixMilli()\<close>.
\<close>

definition save_form :: "libs \<Rightarrow> int \<Rightarrow> Form option \<Rightarrow> world \<Rightarrow> response \<times> world" where
  "save_form L now bound w =
     (case bound of
        None \<Rightarrow> ((400, message ''Invalid form structure''), w)
      | Some form \<Rightarrow>
          (case Validate form of
             e # es \<Rightarrow> ((400, message (Error_text (e # es))), w)
           | [] \<Rightarrow>
               let timestamp = now;
                   dir = filepath_Join [''form-build'', Sprintf_d timestamp]
               in
               (case os_MkdirAll w dir of
                  (Inl err, w1) \<Rightarrow> ((500, message ''Failed to create directory''), w1)
                | (Inr u, w1) \<Rightarrow>
                    let filePath = filepath_Join [dir, ''form.json''] in
                    (case os_Create w1 filePath of
                       (Inl err, w2) \<Rightarrow> ((500, message ''Failed to create file''), w2)
                     | (Inr file, w2) \<Rightarrow>
                         (case file_Write w2 file (json_Encode L [] ''  '' (Form_json form)) of
                            (Inl err, w3) \<Rightarrow> ((500, message ''Failed to write to file''), w3)
                          | (Inr u, w3) \<Rightarrow>
                              ((200, JSON_map [(''message'', ''Form saved successfully''),
                                               (''path'', filePath)]), w3))))))"

subsection \<open>\<open>GET /api/get-form/:formID\<close>\<close>

definition get_form :: "libs \<Rightarrow> APPConfig \<Rightarrow> string \<Rightarrow> world \<Rightarrow> response \<times> world" where
  "get_form L appConf ID w =
     (if ID = [] then ((400, failedMissingMandatoryParameterMsg), w)
      else
        let filePath = filepath_Join [''form-build'', ID, ''form.json''] in
        (case fileExists w filePath of
           (False, w1) \<Rightarrow> ((404, failedNotfoundMsg), w1)
         | (True, w1) \<Rightarrow>
             (case loadJSON L w1 filePath of
                (Inl err, w2) \<Rightarrow> (InternalServerError, w2)
              | (Inr jsonData, w2) \<Rightarrow>
                  let jsonStr = json_Marshal L jsonData in
                  (case makeHTML L w2 (filepath_Join [''form-build'', ''form.html''])
                          [''data'' \<mapsto> jsonStr,
                           ''url'' \<mapsto> Domain appConf @ filepath_Join [''/api/submit-form/'', ID],
                           ''clientXToken'' \<mapsto> ''x.y.z''] of
                     (Inl err, w3) \<Rightarrow> (InternalServerError, w3)
                   | (Inr form, w3) \<Rightarrow> ((200, HTML form), w3)))))"

subsection \<open>\<open>POST /api/submit-form/:formID\<close>\<close>

text \<open>
  The orders of the three \<open>range\<close> iterations over the submitted map: the one inside
  \<open>sortByKey\<close>, the one that collects the headers and the one that collects the record.
\<close>

record ranges =
  sort_range :: "string list"
  header_range :: "string list"
  record_range :: "string list"

definition redirect_html :: "string \<Rightarrow> string" where
  "redirect_html referrer =
     ''<meta http-equiv='' @ [dq] @ ''refresh'' @ [dq] @ '' content='' @ [dq] @ ''3;url=''
     @ referrer @ [dq] @ '' />'' @ [nl, tab, tab]
     @ ''<h1>Form submitted successfully, you will redirect previous page in 3 seconds</h1>''
     @ [nl, tab, tab]"

text \<open>
  The body arrives through \<open>c.Bind(&formData)\<close>: \<open>None\<close> when binding fails, the bound map
  otherwise. The writer buffers both rows and the deferred \<open>Flush\<close> appends them to the
  file when the handler returns; after a failed write the writer accepts and flushes
  nothing more.
\<close>

definition submit_form ::
  "ranges \<Rightarrow> (string \<rightharpoonup> string) option \<Rightarrow> world \<Rightarrow> response \<times> world" where
  "submit_form rg bound w =
     (case bound of
        None \<Rightarrow> ((400, message ''Invalid form data''), w)
      | Some formData \<Rightarrow>
          if index formData ''formID'' = [] then ((400, message ''Invalid form data''), w)
          else
            let dir = filepath_Join [''form-build'', index formData ''formID''] in
            (case os_MkdirAll w dir of
               (Inl err, w1) \<Rightarrow> ((500, message ''Failed to create directory''), w1)
             | (Inr u, w1) \<Rightarrow>
                 let referrer = index formData ''referrer'';
                     formData = formData(''formID'' := None);
                     formData = formData(''clientXToken'' := None);
                     formData = formData(''referrer'' := None);
                     formData = sortByKey (sort_range rg) formData;
                     csvFilePath = filepath_Join [dir, ''form_answer.csv'']
                 in
                 (case os_OpenFile_append w1 csvFilePath of
                    (Inl err, w2) \<Rightarrow> ((500, message ''Failed to open CSV file''), w2)
                  | (Inr file, w2) \<Rightarrow>
                      (case file_Stat_Size w2 file of
                         (Inl err, w3) \<Rightarrow> ((500, message ''Failed to get file info''), w3)
                       | (Inr info_Size, w3) \<Rightarrow>
                           let isNewFile = (info_Size = 0);
                               writer = []
                           in
                           (case (if isNewFile then
                                    let headers = foldl (\<lambda>headers key. headers @ [key]) []
                                                    (header_range rg)
                                    in csv_Write writer headers
                                  else Inr writer) of
                              Inl err \<Rightarrow>
                                ((500, message ''Failed to write headers to CSV file''), w3)
                            | Inr writer \<Rightarrow>
                                let row = foldl (\<lambda>row key. row @ [index formData key]) []
                                            (record_range rg)
                                in
                                (case csv_Write writer row of
                                   Inl err \<Rightarrow>
                                     ((500, message ''Failed to write to CSV file''), w3)
                                 | Inr writer \<Rightarrow>
                                     let htmlResponse = redirect_html referrer
                                     in ((200, HTML htmlResponse),
                                         snd (file_Write w3 file writer))))))))"

subsection \<open>Routing\<close>

datatype route =
    Root
  | SaveForm "Form option"
  | GetForm string
  | SubmitForm "(string \<rightharpoonup> string) option"

record request =
  x_client_key :: "string option"
  target :: route

text \<open>
  What one request needs from outside the program: the clock and the orders in which its
  maps are iterated.
\<close>

record run =
  clock :: int
  orders :: ranges

definition versionAPP :: string where
  "versionAPP = ''1.0.0''"

text \<open>
  The routes of \<open>main\<close> and \<open>registerPath\<close>: only \<open>save-form\<close> is registered with
  \<open>clientKeyMiddleware\<close>.
\<close>

definition serve ::
  "libs \<Rightarrow> APPConfig \<Rightarrow> string list \<Rightarrow> run \<Rightarrow> request \<Rightarrow> world \<Rightarrow> response \<times> world" where
  "serve L appConf allowedClientKeys r req w =
     (case target req of
        Root \<Rightarrow> ((200, JSON_map [(''message'', ''form builder''), (''version'', versionAPP)]), w)
      | SaveForm bound \<Rightarrow>
          clientKeyMiddleware allowedClientKeys (save_form L (clock r) bound) (x_client_key req) w
      | GetForm ID \<Rightarrow> get_form L appConf ID w
      | SubmitForm bound \<Rightarrow> submit_form (orders r) bound w)"

section \<open>Notions used by the statements\<close>

text \<open>A name that \<open>filepath.Join\<close> leaves as it is: one component, not \<open>.\<close> or \<open>..\<close>.\<close>

definition simple_component :: "string \<Rightarrow> bool" where
  "simple_component s = (s \<noteq> [] \<and> CHR ''/'' \<notin> set s \<and> s \<noteq> ''.'' \<and> s \<noteq> ''..'')"

definition is_File :: "node option \<Rightarrow> bool" where
  "is_File n = (case n of Some (File b) \<Rightarrow> True | _ \<Rightarrow> False)"

text \<open>
  Decimal notation, read from the text: a numeral is a non-empty run of the digits \<open>0\<close> to
  \<open>9\<close> that starts with \<open>0\<close> only when it is \<open>0\<close> itself, and its value is read digit by
  digit, most significant first.
\<close>

definition is_digit :: "char \<Rightarrow> bool" where
  "is_digit c = (CHR ''0'' \<le> c \<and> c \<le> CHR ''9'')"

definition digit_value :: "char \<Rightarrow> nat" where
  "digit_value c = of_char c - of_char (CHR ''0'')"

definition digits_value :: "string \<Rightarrow> nat" where
  "digits_value ds = foldl (\<lambda>a c. 10 * a + digit_value c) 0 ds"

definition numeral_of :: "nat \<Rightarrow> string \<Rightarrow> bool" where
  "numeral_of n ds =
     (ds \<noteq> [] \<and> list_all is_digit ds \<and> (hd ds \<noteq> CHR ''0'' \<or> ds = ''0'')
      \<and> digits_value ds = n)"

text \<open>
  The decimal text of an integer: the numeral of its absolute value, after a minus sign
  when the integer is negative.
\<close>

definition decimal_of :: "int \<Rightarrow> string \<Rightarrow> bool" where
  "decimal_of i s =
     (if i < 0 then s \<noteq> [] \<and> hd s = CHR ''-'' \<and> numeral_of (nat (- i)) (tl s)
      else numeral_of (nat i) s)"

text \<open>
  A field that breaks a rule of the data model: empty label, type outside the
  enumeration, or a name that is empty or not alphanumeric.
\<close>

definition invalid_Field :: "Field \<Rightarrow> bool" where
  "invalid_Field f =
     (Label f = []
      \<or> Type f \<notin> {''text'', ''email'', ''textarea'', ''number'', ''date'', ''checkbox''}
      \<or> Name f = [] \<or> \<not> list_all is_alnum (Name f))"

definition the_Fields :: "Form \<Rightarrow> Field list" where
  "the_Fields form = (case Fields form of None \<Rightarrow> [] | Some fs \<Rightarrow> fs)"

text \<open>
  The forms the specification calls invalid: empty title, empty list of fields, or an
  invalid field.
\<close>

definition spec_invalid :: "Form \<Rightarrow> bool" where
  "spec_invalid form =
     (Title form = [] \<or> the_Fields form = [] \<or> list_ex invalid_Field (the_Fields form))"

text \<open>
  The forms the validator rejects: empty title, no list of fields at all, or an invalid
  field.
\<close>

definition rejected :: "Form \<Rightarrow> bool" where
  "rejected form =
     (Title form = [] \<or> Fields form = None \<or> list_ex invalid_Field (the_Fields form))"

text \<open>
  What \<open>get-form\<close> answers once the stored document \<open>doc\<close> has been decoded: the template
  executed on the document marshalled again, the submission address and the fixed token.
\<close>

definition rendered :: "libs \<Rightarrow> APPConfig \<Rightarrow> string \<Rightarrow> json \<Rightarrow> world \<Rightarrow> response" where
  "rendered L appConf ID doc w =
     (case fst (makeHTML L w (filepath_Join [''form-build'', ''form.html''])
                  [''data'' \<mapsto> json_Marshal L doc,
                   ''url'' \<mapsto> Domain appConf @ filepath_Join [''/api/submit-form/'', ID],
                   ''clientXToken'' \<mapsto> ''x.y.z'']) of
        Inl err \<Rightarrow> InternalServerError
      | Inr html \<Rightarrow> (200, HTML html))"

text \<open>The submitted map without the reserved keys: what is left to record.\<close>

definition answers :: "(string \<rightharpoonup> string) \<Rightarrow> (string \<rightharpoonup> string)" where
  "answers formData = formData(''formID'' := None, ''clientXToken'' := None, ''referrer'' := None)"

text \<open>The bytes of a file, none when there is no file.\<close>

definition old_rows :: "node option \<Rightarrow> string" where
  "old_rows n = (case n of Some (File x) \<Rightarrow> x | _ \<Rightarrow> [])"

section \<open>A concrete setting for the examples\<close>

text \<open>
  An instance of the library parameter, for running the handlers on concrete requests.
  The encoders lay a document out as \<open>encoding/json\<close> does; string literals are written
  with \<open>"\<close> and \<open>\\<close> escaped, which is all that strings of letters, digits and
  punctuation other than \<open><\<close>, \<open>>\<close> and \<open>&\<close> need. The parser recognises the compact and
  the indented text of the documents it is given and takes any other text for a syntax
  error. The template parser reads literal text and actions of the form \<open>{{ .key }}\<close>.
\<close>

fun escape :: "string \<Rightarrow> string" where
  "escape [] = []"
| "escape (c # cs) =
     (if c = dq \<or> c = CHR 0x5C then CHR 0x5C # c # escape cs else c # escape cs)"

definition quote :: "string \<Rightarrow> string" where
  "quote s = dq # escape s @ [dq]"

fun join_with :: "string \<Rightarrow> string list \<Rightarrow> string" where
  "join_with sep [] = []"
| "join_with sep [x] = x"
| "join_with sep (x # y # ys) = x @ sep @ join_with sep (y # ys)"

definition line_break :: "string \<Rightarrow> string \<Rightarrow> nat \<Rightarrow> string" where
  "line_break prefix indent depth = nl # prefix @ concat (replicate depth indent)"

fun indented :: "string \<Rightarrow> string \<Rightarrow> nat \<Rightarrow> json \<Rightarrow> string" where
  "indented p i d JNull = ''null''"
| "indented p i d (JBool b) = (if b then ''true'' else ''false'')"
| "indented p i d (JNumber n) = n"
| "indented p i d (JString s) = quote s"
| "indented p i d (JArray xs) =
     (if xs = [] then ''[]''
      else ''['' @ line_break p i (Suc d)
           @ join_with (CHR '','' # line_break p i (Suc d)) (map (indented p i (Suc d)) xs)
           @ line_break p i d @ '']'')"
| "indented p i d (JObject kvs) =
     (if kvs = [] then ''{}''
      else ''{'' @ line_break p i (Suc d)
           @ join_with (CHR '','' # line_break p i (Suc d))
               (map (\<lambda>kv. quote (fst kv) @ '': '' @ indented p i (Suc d) (snd kv)) kvs)
           @ line_break p i d @ ''}'')"

text \<open>Compact text; the members of an object (a Go map when decoded) sorted by key.\<close>

fun compact :: "json \<Rightarrow> string" where
  "compact JNull = ''null''"
| "compact (JBool b) = (if b then ''true'' else ''false'')"
| "compact (JNumber n) = n"
| "compact (JString s) = quote s"
| "compact (JArray xs) = ''['' @ join_with '','' (map compact xs) @ '']''"
| "compact (JObject kvs) =
     ''{'' @ join_with '',''
              (sort (map (\<lambda>kv. quote (fst kv) @ '':'' @ compact (snd kv)) kvs)) @ ''}''"

definition demo_Encode :: "string \<Rightarrow> string \<Rightarrow> json \<Rightarrow> string" where
  "demo_Encode prefix indent j = indented prefix indent 0 j @ [nl]"

definition demo_parse :: "json list \<Rightarrow> string \<Rightarrow> json option" where
  "demo_parse docs s = find (\<lambda>d. s = compact d \<or> s = demo_Encode [] ''  '' d) docs"

definition trim :: "string \<Rightarrow> string" where
  "trim s = rev (dropWhile (\<lambda>c. c = CHR '' '') (rev (dropWhile (\<lambda>c. c = CHR '' '') s)))"

definition action_piece :: "string \<Rightarrow> piece option" where
  "action_piece s =
     (case trim s of
        [] \<Rightarrow> None
      | c # key \<Rightarrow> if c = CHR ''.'' \<and> key \<noteq> [] \<and> list_all is_alnum key
                   then Some (Action key) else None)"

fun in_text :: "string \<Rightarrow> string \<Rightarrow> piece list option"
and in_action :: "string \<Rightarrow> string \<Rightarrow> piece list option" where
  "in_text acc [] = Some [Text (rev acc)]"
| "in_text acc [c] = Some [Text (rev (c # acc))]"
| "in_text acc (c # d # cs) =
     (if c = CHR ''{'' \<and> d = CHR ''{''
      then map_option (\<lambda>ps. Text (rev acc) # ps) (in_action [] cs)
      else in_text (c # acc) (d # cs))"
| "in_action acc [] = None"
| "in_action acc [c] = None"
| "in_action acc (c # d # cs) =
     (if c = CHR ''}'' \<and> d = CHR ''}''
      then (case action_piece (rev acc) of
              None \<Rightarrow> None
            | Some a \<Rightarrow> map_option (\<lambda>ps. a # ps) (in_text [] cs))
      else in_action (c # acc) (d # cs))"

definition demo_template_Parse :: "string \<Rightarrow> piece list option" where
  "demo_template_Parse s = in_text [] s"

definition demo_libs :: "json list \<Rightarrow> libs" where
  "demo_libs docs =
     \<lparr>json_parse = demo_parse docs, json_Marshal = compact, json_Encode = demo_Encode,
      template_Parse = demo_template_Parse\<rparr>"

definition demo_conf :: Config where
  "demo_conf =
     \<lparr>APP = \<lparr>Host = ''0.0.0.0'', Port = ''8080'', Domain = ''http://0.0.0.0:8080''\<rparr>,
      ClientKeys = ''['' @ [dq] @ ''api-key-1'' @ [dq] @ '','' @ [dq] @ ''api-key-2'' @ [dq] @ '']''\<rparr>"

definition contact_form :: Form where
  "contact_form =
     \<lparr>Title = ''Contact'',
      Fields = Some [\<lparr>Label = ''Your name'', Type = ''text'', Name = ''name'',
                      Placeholder = ''Alice''\<rparr>]\<rparr>"

text \<open>The file \<open>encoding/json\<close> writes for that form with an indent of two spaces.\<close>

definition contact_form_text :: string where
  "contact_form_text = concat
     [''{'', [nl],
      ''  '', [dq], ''title'', [dq], '': '', [dq], ''Contact'', [dq], '','', [nl],
      ''  '', [dq], ''fields'', [dq], '': ['', [nl],
      ''    {'', [nl],
      ''      '', [dq], ''label'', [dq], '': '', [dq], ''Your name'', [dq], '','', [nl],
      ''      '', [dq], ''type'', [dq], '': '', [dq], ''text'', [dq], '','', [nl],
      ''      '', [dq], ''name'', [dq], '': '', [dq], ''name'', [dq], '','', [nl],
      ''      '', [dq], ''placeholder'', [dq], '': '', [dq], ''Alice'', [dq], [nl],
      ''    }'', [nl],
      ''  ]'', [nl],
      ''}'', [nl]]"

definition empty_form :: Form where
  "empty_form = \<lparr>Title = ''Contact'', Fields = Some []\<rparr>"

definition demo_template :: string where
  "demo_template =
     ''<script>data = `{{ .data }}`; action = '' @ [dq] @ ''{{ .url }}'' @ [dq]
     @ ''; token = '' @ [dq] @ ''{{ .clientXToken }}'' @ [dq] @ '';</script>''"

text \<open>An empty disk, and a disk that holds only the template.\<close>

definition no_files :: world where
  "no_files = \<lparr>nodes = Map.empty, calls = []\<rparr>"

definition installed :: world where
  "installed =
     \<lparr>nodes = [[''form-build''] \<mapsto> Dir, [''form-build'', ''form.html''] \<mapsto> File demo_template],
      calls = []\<rparr>"

text \<open>A disk with the template and a \<open>form.json\<close> directly below \<open>form-build\<close>.\<close>

definition stray_form :: world where
  "stray_form =
     \<lparr>nodes = [[''form-build''] \<mapsto> Dir, [''form-build'', ''form.html''] \<mapsto> File demo_template,
               [''form-build'', ''form.json'']
                 \<mapsto> File (demo_Encode [] ''  '' (Form_json contact_form))],
      calls = []\<rparr>"

text \<open>A disk with the template and one saved form.\<close>

definition saved :: world where
  "saved =
     \<lparr>nodes = [[''form-build''] \<mapsto> Dir, [''form-build'', ''form.html''] \<mapsto> File demo_template,
               [''form-build'', ''1700000000123''] \<mapsto> Dir,
               [''form-build'', ''1700000000123'', ''form.json'']
                 \<mapsto> File (demo_Encode [] ''  '' (Form_json contact_form))],
      calls = []\<rparr>"

definition alice :: "string \<rightharpoonup> string" where
  "alice =
     [''formID'' \<mapsto> ''123'', ''clientXToken'' \<mapsto> ''x'', ''referrer'' \<mapsto> ''http://x'',
      ''name'' \<mapsto> ''Alice'', ''email'' \<mapsto> ''a@b.com'']"

definition bob :: "string \<rightharpoonup> string" where
  "bob =
     [''formID'' \<mapsto> ''123'', ''clientXToken'' \<mapsto> ''x'', ''referrer'' \<mapsto> ''http://x'',
      ''name'' \<mapsto> ''Bob'', ''email'' \<mapsto> ''b@c.org'']"

definition password_form :: Form where
  "password_form =
     \<lparr>Title = ''Login'',
      Fields = Some [\<lparr>Label = ''Secret'', Type = ''password'', Name = ''secret'',
                      Placeholder = []\<rparr>]\<rparr>"

text \<open>A configuration whose client keys are one JSON string instead of an array.\<close>

definition one_key_conf :: Config where
  "one_key_conf = demo_conf\<lparr>ClientKeys := [dq] @ ''api-key-1'' @ [dq]\<rparr>"

definition name_first :: "string list" where
  "name_first = [''name'', ''email'']"

definition email_first :: "string list" where
  "email_first = [''email'', ''name'']"

definition demo_run :: run where
  "demo_run =
     \<lparr>clock = 1700000000123,
      orders = \<lparr>sort_range = name_first, header_range = email_first,
                record_range = email_first\<rparr>\<rparr>"

section \<open>Evaluation rules\<close>

lemmas path_defs = filepath_Join_def filepath_Clean_def clean_comps_def path_key_def

lemmas fs_defs = os_MkdirAll_def os_Create_def os_OpenFile_append_def open_write_def
  file_Stat_Size_def file_Write_def os_ReadFile_def os_Stat_def fileExists_def
  os_IsNotExist_def node_at_def sys_def

lemmas char_defs = dq_def nl_def cr_def tab_def sq_def

lemmas csv_defs = csv_Write_def csv_record_def csv_field_def fieldNeedsQuotes_def
  space_prefixes_def starts_with_def

lemmas demo_defs = demo_libs_def demo_parse_def demo_Encode_def demo_template_Parse_def
  quote_def line_break_def action_piece_def trim_def is_alnum_def

section \<open>Facts about paths and decimal names\<close>

lemma split_sep_plain: "CHR ''/'' \<notin> set u \<Longrightarrow> split_sep u = [u]"
  by (induction u) auto

lemma split_sep_slash:
  "CHR ''/'' \<notin> set u \<Longrightarrow> split_sep (u @ CHR ''/'' # rest) = u # split_sep rest"
  by (induction u) auto

lemma digit_char_set: "d < 10 \<Longrightarrow> digit_char d \<in> set ''0123456789''"
proof -
  assume "d < 10"
  then have "d = 0 \<or> d = 1 \<or> d = 2 \<or> d = 3 \<or> d = 4 \<or> d = 5 \<or> d = 6 \<or> d = 7 \<or> d = 8 \<or> d = 9"
    by presburger
  then show ?thesis
    by (elim disjE) (simp_all add: digit_char_def)
qed

lemma nat_decimal_digits: "nat_decimal n \<noteq> [] \<and> set (nat_decimal n) \<subseteq> set ''0123456789''"
proof (induction n rule: nat_decimal.induct)
  case (1 n)
  show ?case
  proof (cases "n < 10")
    case True
    then have "nat_decimal n = [digit_char n]" by (subst nat_decimal.simps) simp
    then show ?thesis using digit_char_set [OF True] by simp
  next
    case False
    have "n mod 10 < 10" by simp
    then have d: "digit_char (n mod 10) \<in> set ''0123456789''" by (rule digit_char_set)
    have e: "nat_decimal n = nat_decimal (n div 10) @ [digit_char (n mod 10)]"
      using False by (subst nat_decimal.simps) simp
    have "set (nat_decimal (n div 10)) \<subseteq> set ''0123456789''" using 1 False by blast
    with d show ?thesis unfolding e by simp
  qed
qed

lemma Sprintf_d_chars: "Sprintf_d i \<noteq> [] \<and> set (Sprintf_d i) \<subseteq> set ''-0123456789''"
proof (cases "i < 0")
  case True
  have "set (nat_decimal (nat (- i))) \<subseteq> set ''0123456789''" using nat_decimal_digits by blast
  also have "\<dots> \<subseteq> set ''-0123456789''" by (rule set_subset_Cons)
  finally show ?thesis using True by (simp add: Sprintf_d_def)
next
  case False
  have "set (nat_decimal (nat i)) \<subseteq> set ''0123456789''" using nat_decimal_digits by blast
  also have "\<dots> \<subseteq> set ''-0123456789''" by (rule set_subset_Cons)
  finally show ?thesis using False nat_decimal_digits [of "nat i"] by (simp add: Sprintf_d_def)
qed

text \<open>What \<open>Sprintf_d\<close> returns is the decimal text of its argument.\<close>

lemma digit_char_value: "d < 10 \<Longrightarrow> is_digit (digit_char d) \<and> digit_value (digit_char d) = d"
proof -
  assume "d < 10"
  then have "d = 0 \<or> d = 1 \<or> d = 2 \<or> d = 3 \<or> d = 4 \<or> d = 5 \<or> d = 6 \<or> d = 7 \<or> d = 8 \<or> d = 9"
    by presburger
  then show ?thesis
    by (elim disjE) (simp_all add: digit_char_def is_digit_def digit_value_def)
qed

lemma digits_value_snoc: "digits_value (ds @ [c]) = 10 * digits_value ds + digit_value c"
  by (simp add: digits_value_def)

lemma numeral_of_nat_decimal: "numeral_of n (nat_decimal n)"
proof (induction n rule: nat_decimal.induct)
  case (1 n)
  show ?case
  proof (cases "n < 10")
    case True
    then have e: "nat_decimal n = [digit_char n]" by (subst nat_decimal.simps) simp
    show ?thesis
      using digit_char_value [OF True] by (simp add: e numeral_of_def digits_value_def)
  next
    case False
    let ?q = "nat_decimal (n div 10)"
    have m: "n mod 10 < 10" by simp
    have e: "nat_decimal n = ?q @ [digit_char (n mod 10)]"
      using False by (subst nat_decimal.simps) simp
    have ih: "numeral_of (n div 10) ?q" using 1 False by blast
    then have q: "?q \<noteq> []" "list_all is_digit ?q" "hd ?q \<noteq> CHR ''0'' \<or> ?q = ''0''"
      "digits_value ?q = n div 10"
      by (simp_all add: numeral_of_def)
    have z: "?q \<noteq> ''0''"
    proof
      assume "?q = ''0''"
      then have "digits_value ?q = 0" by (simp add: digits_value_def digit_value_def)
      with q(4) False show False by simp
    qed
    with q(3) have h: "hd ?q \<noteq> CHR ''0''" by blast
    have v: "digits_value (nat_decimal n) = n"
      using digit_char_value [OF m] q(4) by (simp add: e digits_value_snoc)
    show ?thesis
      unfolding numeral_of_def
      using q(1) q(2) h v digit_char_value [OF m] by (simp add: e)
  qed
qed

lemma decimal_of_Sprintf_d: "decimal_of i (Sprintf_d i)"
proof (cases "i < 0")
  case True
  then show ?thesis
    using numeral_of_nat_decimal [of "nat (- i)"] by (simp add: decimal_of_def Sprintf_d_def)
next
  case False
  then show ?thesis
    using numeral_of_nat_decimal [of "nat i"] by (simp add: decimal_of_def Sprintf_d_def)
qed

text \<open>It is the only one: a text that reads as the decimal of \<open>i\<close> is \<open>Sprintf_d i\<close>.\<close>

lemma is_digit_cases:
  "is_digit c \<Longrightarrow> c \<in> set ''0123456789''"
proof -
  assume "is_digit c"
  then have b: "48 \<le> (of_char c :: nat)" "(of_char c :: nat) \<le> 57"
    by (simp_all add: is_digit_def less_eq_char_def)
  then have "(of_char c :: nat) = 48 \<or> (of_char c :: nat) = 49 \<or> (of_char c :: nat) = 50
      \<or> (of_char c :: nat) = 51 \<or> (of_char c :: nat) = 52 \<or> (of_char c :: nat) = 53
      \<or> (of_char c :: nat) = 54 \<or> (of_char c :: nat) = 55 \<or> (of_char c :: nat) = 56
      \<or> (of_char c :: nat) = 57"
    by presburger
  then have "(of_char c :: nat) = of_char (CHR ''0'') \<or> (of_char c :: nat) = of_char (CHR ''1'')
      \<or> (of_char c :: nat) = of_char (CHR ''2'') \<or> (of_char c :: nat) = of_char (CHR ''3'')
      \<or> (of_char c :: nat) = of_char (CHR ''4'') \<or> (of_char c :: nat) = of_char (CHR ''5'')
      \<or> (of_char c :: nat) = of_char (CHR ''6'') \<or> (of_char c :: nat) = of_char (CHR ''7'')
      \<or> (of_char c :: nat) = of_char (CHR ''8'') \<or> (of_char c :: nat) = of_char (CHR ''9'')"
    by simp
  then have "c = CHR ''0'' \<or> c = CHR ''1'' \<or> c = CHR ''2'' \<or> c = CHR ''3'' \<or> c = CHR ''4''
      \<or> c = CHR ''5'' \<or> c = CHR ''6'' \<or> c = CHR ''7'' \<or> c = CHR ''8'' \<or> c = CHR ''9''"
    by (simp only: of_char_eq_iff)
  then show ?thesis by (elim disjE) simp_all
qed

lemma digit_value_char:
  "is_digit c \<Longrightarrow> digit_value c < 10 \<and> digit_char (digit_value c) = c"
proof -
  assume "is_digit c"
  then have "c \<in> set ''0123456789''" by (rule is_digit_cases)
  then have "c = CHR ''0'' \<or> c = CHR ''1'' \<or> c = CHR ''2'' \<or> c = CHR ''3'' \<or> c = CHR ''4''
      \<or> c = CHR ''5'' \<or> c = CHR ''6'' \<or> c = CHR ''7'' \<or> c = CHR ''8'' \<or> c = CHR ''9''"
    by simp
  then show ?thesis
    by (elim disjE) (simp_all add: digit_value_def digit_char_def)
qed

lemma digit_value_0: "is_digit c \<Longrightarrow> digit_value c = 0 \<Longrightarrow> c = CHR ''0''"
  using digit_value_char [of c] by (simp add: digit_char_def)

lemma digits_value_pos:
  "ds \<noteq> [] \<Longrightarrow> list_all is_digit ds \<Longrightarrow> hd ds \<noteq> CHR ''0'' \<Longrightarrow> 0 < digits_value ds"
proof (induction ds rule: rev_induct)
  case Nil
  then show ?case by simp
next
  case (snoc c ds)
  show ?case
  proof (cases "ds = []")
    case True
    with snoc.prems have "is_digit c" "c \<noteq> CHR ''0''" by simp_all
    then have "digit_value c \<noteq> 0" using digit_value_0 by blast
    with True show ?thesis by (simp add: digits_value_def)
  next
    case False
    with snoc have "0 < digits_value ds" by simp
    then show ?thesis by (simp add: digits_value_snoc)
  qed
qed

lemma numeral_of_unique: "numeral_of n ds \<Longrightarrow> ds = nat_decimal n"
proof (induction ds arbitrary: n rule: rev_induct)
  case Nil
  then show ?case by (simp add: numeral_of_def)
next
  case (snoc c ds)
  from snoc.prems have c: "is_digit c" and a: "list_all is_digit ds"
    and v: "10 * digits_value ds + digit_value c = n"
    and h: "hd (ds @ [c]) \<noteq> CHR ''0'' \<or> ds @ [c] = ''0''"
    by (simp_all add: numeral_of_def digits_value_snoc)
  note dc = digit_value_char [OF c]
  show ?case
  proof (cases "ds = []")
    case True
    with v dc have "n < 10" "digit_char n = c" by (auto simp: digits_value_def)
    then show ?thesis using True by (subst nat_decimal.simps) simp
  next
    case False
    with h have h': "hd ds \<noteq> CHR ''0''" by simp
    then have "numeral_of (digits_value ds) ds"
      using False a by (simp add: numeral_of_def)
    then have ih: "ds = nat_decimal (digits_value ds)" by (rule snoc.IH)
    have "0 < digits_value ds" using False a h' by (rule digits_value_pos)
    with v dc have n: "\<not> n < 10" "n div 10 = digits_value ds" "n mod 10 = digit_value c"
      by auto
    have "nat_decimal n = nat_decimal (n div 10) @ [digit_char (n mod 10)]"
      using n(1) by (subst nat_decimal.simps) simp
    with n ih dc show ?thesis by simp
  qed
qed

lemma decimal_of_unique: "decimal_of i s = (s = Sprintf_d i)"
proof
  assume d: "decimal_of i s"
  show "s = Sprintf_d i"
  proof (cases "i < 0")
    case True
    with d have s: "s \<noteq> []" "hd s = CHR ''-''" "numeral_of (nat (- i)) (tl s)"
      by (simp_all add: decimal_of_def)
    from s(3) have "tl s = nat_decimal (nat (- i))" by (rule numeral_of_unique)
    with s(1) s(2) have "s = CHR ''-'' # nat_decimal (nat (- i))" by (cases s) simp_all
    with True show ?thesis by (simp add: Sprintf_d_def)
  next
    case False
    with d have "numeral_of (nat i) s" by (simp add: decimal_of_def)
    then have "s = nat_decimal (nat i)" by (rule numeral_of_unique)
    with False show ?thesis by (simp add: Sprintf_d_def)
  qed
next
  assume "s = Sprintf_d i"
  then show "decimal_of i s" by (simp add: decimal_of_Sprintf_d)
qed

lemma Sprintf_d_examples:
  "Sprintf_d 0 = ''0''" "Sprintf_d 7 = ''7''" "Sprintf_d 42 = ''42''" "Sprintf_d (- 305) = ''-305''"
  "Sprintf_d 1700000000124 = ''1700000000124''"
  by (simp_all add: Sprintf_d_def nat_decimal.simps digit_char_def)

text \<open>No decimal text is the name of the template.\<close>

lemma Sprintf_d_not_template: "Sprintf_d i \<noteq> ''form.html''"
proof
  assume "Sprintf_d i = ''form.html''"
  then have "CHR ''f'' \<in> set (Sprintf_d i)" by simp
  moreover have "CHR ''f'' \<notin> set ''-0123456789''" by simp
  ultimately show False using Sprintf_d_chars [of i] by blast
qed

text \<open>A decimal name is a single path component.\<close>

lemma Sprintf_d_simple: "simple_component (Sprintf_d i)"
proof -
  have ne: "Sprintf_d i \<noteq> []" and sub: "set (Sprintf_d i) \<subseteq> set ''-0123456789''"
    using Sprintf_d_chars by blast+
  have "CHR ''/'' \<notin> set ''-0123456789''" by simp
  with sub have slash: "CHR ''/'' \<notin> set (Sprintf_d i)" by blast
  have "CHR ''.'' \<notin> set ''-0123456789''" by simp
  with sub have dot: "CHR ''.'' \<notin> set (Sprintf_d i)" by blast
  have d1: "Sprintf_d i \<noteq> ''.''"
  proof
    assume "Sprintf_d i = ''.''"
    then have "CHR ''.'' \<in> set (Sprintf_d i)" by simp
    with dot show False by blast
  qed
  have d2: "Sprintf_d i \<noteq> ''..''"
  proof
    assume "Sprintf_d i = ''..''"
    then have "CHR ''.'' \<in> set (Sprintf_d i)" by simp
    with dot show False by blast
  qed
  show ?thesis unfolding simple_component_def using ne slash d1 d2 by blast
qed

lemma Join_dir:
  "simple_component b \<Longrightarrow> filepath_Join [''form-build'', b] = ''form-build/'' @ b"
  by (simp add: simple_component_def path_defs split_sep_plain Let_def)

lemma Join_file:
  "simple_component b \<Longrightarrow>
     filepath_Join [''form-build/'' @ b, ''form.json''] = ''form-build/'' @ b @ ''/form.json''"
  by (simp add: simple_component_def path_defs split_sep_plain split_sep_slash Let_def)

lemma Join_three:
  "simple_component b \<Longrightarrow>
     filepath_Join [''form-build'', b, ''form.json''] = ''form-build/'' @ b @ ''/form.json''"
  by (simp add: simple_component_def path_defs split_sep_plain split_sep_slash Let_def)

lemma key_dir: "simple_component b \<Longrightarrow> path_key (''form-build/'' @ b) = [''form-build'', b]"
  by (simp add: simple_component_def path_defs split_sep_plain Let_def)

lemma key_file:
  "simple_component b \<Longrightarrow>
     path_key (''form-build/'' @ b @ ''/form.json'') = [''form-build'', b, ''form.json'']"
  by (simp add: simple_component_def path_defs split_sep_plain split_sep_slash Let_def)

lemma Join_url:
  "simple_component b \<Longrightarrow> filepath_Join [''/api/submit-form/'', b] = ''/api/submit-form/'' @ b"
  by (simp add: simple_component_def path_defs split_sep_plain Let_def)

section \<open>The map returned by \<open>sortByKey\<close>\<close>

lemma collect_keys: "foldl (\<lambda>keys key. keys @ [key]) acc ks = acc @ ks"
  by (induction ks arbitrary: acc) simp_all

lemma store_keys:
  "foldl (\<lambda>out key. out(key \<mapsto> index inp key)) m ks =
     (\<lambda>k. if k \<in> set ks then Some (index inp k) else m k)"
  by (induction ks arbitrary: m) (auto simp: fun_eq_iff)

lemma sortByKey_map:
  "sortByKey ks inp = (\<lambda>k. if k \<in> set ks then Some (index inp k) else None)"
  by (simp add: sortByKey_def collect_keys store_keys)

text \<open>The keys stored are those of the argument, each with its value.\<close>

lemma sortByKey_id: "range_order m ks \<Longrightarrow> sortByKey ks m = m"
proof
  fix k
  assume "range_order m ks"
  then show "sortByKey ks m k = m k"
    by (cases "m k") (auto simp: sortByKey_map range_order_def index_def dom_def)
qed

text \<open>
  C9. Whatever order the loop over the input takes, \<open>sortByKey\<close> returns a map with the
  same entries as its argument: as a function from maps to maps it is the identity. The
  result carries no order of its own: every order in which a loop can visit the argument
  is an order in which a loop can visit the result, and conversely.
\<close>

theorem sortByKey_identity:
  "range_order m ks \<Longrightarrow>
     sortByKey ks m = m \<and> (\<forall>ks'. range_order (sortByKey ks m) ks' = range_order m ks')"
  by (simp add: sortByKey_id)

theorem sortByKey_identity_witness:
  "range_order [''name'' \<mapsto> ''Alice'', ''email'' \<mapsto> ''a@b.com''] [''name'', ''email'']
   \<and> sortByKey [''name'', ''email''] [''name'' \<mapsto> ''Alice'', ''email'' \<mapsto> ''a@b.com'']
       = [''name'' \<mapsto> ''Alice'', ''email'' \<mapsto> ''a@b.com'']
   \<and> range_order
         (sortByKey [''name'', ''email''] [''name'' \<mapsto> ''Alice'', ''email'' \<mapsto> ''a@b.com''])
         [''email'', ''name'']"
proof -
  have h: "range_order [''name'' \<mapsto> ''Alice'', ''email'' \<mapsto> ''a@b.com''] [''name'', ''email'']"
    by (auto simp: range_order_def)
  have o: "range_order [''name'' \<mapsto> ''Alice'', ''email'' \<mapsto> ''a@b.com''] [''email'', ''name'']"
    by (auto simp: range_order_def)
  show ?thesis using h o sortByKey_identity [OF h] by simp
qed

section \<open>The access gate\<close>

lemma key_allowed_set: "key_allowed k vs = (k \<in> set vs)"
  by (induction vs) auto

text \<open>
  C5. A \<open>save-form\<close> request without the header \<open>x-client-key\<close>, or with an empty one, is
  answered 403 with the message that the header is required. With a non-empty header
  that equals none of the configured keys it is answered 403 with the message that the key
  is not found, a different message. With a header that equals a configured key the
  request reaches the handler. The answers to \<open>get-form\<close> and \<open>submit-form\<close> are those of
  their handlers, whatever the header and the configured keys.
\<close>

theorem clientKeyMiddleware_gate:
  "(Header_Get hdr = [] \<longrightarrow>
      serve L conf ks r \<lparr>x_client_key = hdr, target = SaveForm b\<rparr> w
        = ((403, message ''x-client-key header is required''), w))
   \<and> (Header_Get hdr \<noteq> [] \<and> Header_Get hdr \<notin> set ks \<longrightarrow>
      serve L conf ks r \<lparr>x_client_key = hdr, target = SaveForm b\<rparr> w
        = ((403, message ''key is not found''), w))
   \<and> (Header_Get hdr \<noteq> [] \<and> Header_Get hdr \<in> set ks \<longrightarrow>
      serve L conf ks r \<lparr>x_client_key = hdr, target = SaveForm b\<rparr> w
        = save_form L (clock r) b w)
   \<and> message ''x-client-key header is required'' \<noteq> message ''key is not found''
   \<and> serve L conf ks r \<lparr>x_client_key = hdr, target = GetForm ID\<rparr> w = get_form L conf ID w
   \<and> serve L conf ks r \<lparr>x_client_key = hdr, target = SubmitForm m\<rparr> w
       = submit_form (orders r) m w"
  by (simp add: serve_def clientKeyMiddleware_def key_allowed_set message_def)

theorem clientKeyMiddleware_gate_witness:
  "Header_Get None = []
   \<and> serve (demo_libs []) (APP demo_conf) [''api-key-1'', ''api-key-2''] demo_run
        \<lparr>x_client_key = None, target = SaveForm None\<rparr> no_files
       = ((403, message ''x-client-key header is required''), no_files)
   \<and> Header_Get (Some ''guess'') \<noteq> [] \<and> Header_Get (Some ''guess'') \<notin> set [''api-key-1'', ''api-key-2'']
   \<and> serve (demo_libs []) (APP demo_conf) [''api-key-1'', ''api-key-2''] demo_run
        \<lparr>x_client_key = Some ''guess'', target = SaveForm None\<rparr> no_files
       = ((403, message ''key is not found''), no_files)
   \<and> Header_Get (Some ''api-key-2'') \<noteq> [] \<and> Header_Get (Some ''api-key-2'') \<in> set [''api-key-1'', ''api-key-2'']
   \<and> serve (demo_libs []) (APP demo_conf) [''api-key-1'', ''api-key-2''] demo_run
        \<lparr>x_client_key = Some ''api-key-2'', target = SaveForm None\<rparr> no_files
       = save_form (demo_libs []) (clock demo_run) None no_files"
  using
    clientKeyMiddleware_gate [of None "demo_libs []" "APP demo_conf" "[''api-key-1'', ''api-key-2'']"
      demo_run None no_files]
    clientKeyMiddleware_gate [of "Some ''guess''" "demo_libs []" "APP demo_conf"
      "[''api-key-1'', ''api-key-2'']" demo_run None no_files]
    clientKeyMiddleware_gate [of "Some ''api-key-2''" "demo_libs []" "APP demo_conf"
      "[''api-key-1'', ''api-key-2'']" demo_run None no_files]
  by (simp add: Header_Get_def)

section \<open>Start-up with client keys that are not a JSON array\<close>

text \<open>
  C10. When the configured client keys are not a JSON array (the text is not JSON at
  all, or it is a JSON document of another kind), \<open>json.Unmarshal\<close> reports an error or
  stores nothing, \<open>main\<close> drops the report, and the list of allowed keys is empty: every
  \<open>save-form\<close> request with a non-empty \<open>x-client-key\<close> header is answered 403 with the
  message that the key is not found.
\<close>

theorem unparsable_ClientKeys:
  assumes "json_parse L (ClientKeys conf) = None
           \<or> (\<exists>j. json_parse L (ClientKeys conf) = Some j \<and> (\<forall>xs. j \<noteq> JArray xs))"
  shows "load_allowedClientKeys L conf = []
         \<and> (h \<noteq> [] \<longrightarrow>
              serve L (APP conf) (load_allowedClientKeys L conf) r
                \<lparr>x_client_key = Some h, target = SaveForm b\<rparr> w
              = ((403, message ''key is not found''), w))"
proof -
  have e: "load_allowedClientKeys L conf = []"
    using assms
    by (auto simp: load_allowedClientKeys_def json_Unmarshal_strings_def split: json.splits)
  show ?thesis
    unfolding e by (simp add: serve_def clientKeyMiddleware_def Header_Get_def)
qed

theorem unparsable_ClientKeys_witness:
  "json_parse (demo_libs [JString ''api-key-1'']) (ClientKeys one_key_conf) = Some (JString ''api-key-1'')
   \<and> load_allowedClientKeys (demo_libs [JString ''api-key-1'']) one_key_conf = []
   \<and> serve (demo_libs [JString ''api-key-1'']) (APP one_key_conf)
        (load_allowedClientKeys (demo_libs [JString ''api-key-1'']) one_key_conf) demo_run
        \<lparr>x_client_key = Some ''api-key-1'', target = SaveForm (Some contact_form)\<rparr> no_files
       = ((403, message ''key is not found''), no_files)"
proof -
  have p: "json_parse (demo_libs [JString ''api-key-1'']) (ClientKeys one_key_conf)
             = Some (JString ''api-key-1'')"
    by (simp add: demo_defs char_defs one_key_conf_def)
  then have "json_parse (demo_libs [JString ''api-key-1'']) (ClientKeys one_key_conf) = None
     \<or> (\<exists>j. json_parse (demo_libs [JString ''api-key-1'']) (ClientKeys one_key_conf) = Some j
            \<and> (\<forall>xs. j \<noteq> JArray xs))"
    by simp
  note t = unparsable_ClientKeys [OF this, of "''api-key-1''" demo_run "Some contact_form" no_files]
  have c: "''api-key-1'' \<noteq> ([]::string)" by simp
  from t c p show ?thesis by blast
qed

text \<open>
  An array with an element that is not a string is decoded as far as it goes: the error
  is reported (and dropped by \<open>main\<close>), the strings are kept and the other elements are
  empty strings.
\<close>

lemma mixed_array_keys:
  "json_parse L (ClientKeys conf) = Some (JArray [JString k, JNumber n]) \<Longrightarrow>
     json_Unmarshal_strings L (ClientKeys conf) [] = (Some UnmarshalTypeError, [k, []])
     \<and> load_allowedClientKeys L conf = [k, []]"
  by (simp add: load_allowedClientKeys_def json_Unmarshal_strings_def)

section \<open>\<open>get-form\<close> with an empty identifier\<close>

text \<open>
  C7, as stated, at an identifier made of one space: the handler does not answer 400; it
  asks the file system for \<open>form-build/ /form.json\<close> and answers 404.
\<close>

theorem whitespace_ID_looked_up:
  "get_form (demo_libs []) (APP demo_conf) '' '' no_files
     = ((404, failedNotfoundMsg), sys (SysStat ''form-build/ /form.json'') no_files)
   \<and> calls (sys (SysStat ''form-build/ /form.json'') no_files)
       = [SysStat ''form-build/ /form.json'']"
  by (simp add: get_form_def no_files_def path_defs fs_defs Let_def)

text \<open>
  C7, amended. A \<open>get-form\<close> request with the empty identifier is answered 400 with the
  message \<open>Missing mandatory parameter\<close> and the file system is not touched. Every other
  identifier, one made of white space included, is looked up: the answer is not 400 and
  the first call is \<open>os.Stat\<close> on the path of its \<open>form.json\<close>.
\<close>

theorem get_form_empty_ID:
  "get_form L appConf [] w = ((400, failedMissingMandatoryParameterMsg), w)
   \<and> (ID \<noteq> [] \<longrightarrow>
        fst (fst (get_form L appConf ID w)) \<noteq> 400
        \<and> (\<exists>rest. calls (snd (get_form L appConf ID w))
               = calls w @ SysStat (filepath_Join [''form-build'', ID, ''form.json'']) # rest))"
  by (auto simp: get_form_def fileExists_def os_Stat_def loadJSON_def makeHTML_def
        os_ReadFile_def sys_def Let_def InternalServerError_def
      split: prod.splits sum.splits option.splits node.splits bool.splits)

theorem get_form_empty_ID_witness:
  "[tab] \<noteq> []
   \<and> fst (fst (get_form (demo_libs []) (APP demo_conf) [tab] installed)) \<noteq> 400
   \<and> (\<exists>rest. calls (snd (get_form (demo_libs []) (APP demo_conf) [tab] installed))
          = calls installed @ SysStat (filepath_Join [''form-build'', [tab], ''form.json'']) # rest)"
  using get_form_empty_ID [of "demo_libs []" "APP demo_conf" installed "[tab]"] by simp

section \<open>Validation of a submitted form\<close>

lemma fieldTypeValidator_iff:
  "fieldTypeValidator t = (t \<in> {''text'', ''email'', ''textarea'', ''number'', ''date'', ''checkbox''})"
proof -
  have "fieldTypeValidator t = (t \<in> dom validFieldTypes)"
    by (simp add: fieldTypeValidator_def dom_def)
  also have "dom validFieldTypes = {''text'', ''email'', ''textarea'', ''number'', ''date'', ''checkbox''}"
    by (simp add: validFieldTypes_def insert_commute)
  finally show ?thesis .
qed

lemma fieldTypeValidator_Nil: "\<not> fieldTypeValidator []"
  by (simp add: fieldTypeValidator_def validFieldTypes_def)

lemma validate_Field_empty: "(validate_Field p f = []) = (\<not> invalid_Field f)"
proof -
  have "(validate_Field p f = []) =
          (Label f \<noteq> [] \<and> Type f \<noteq> [] \<and> fieldTypeValidator (Type f)
           \<and> Name f \<noteq> [] \<and> alphanum (Name f))"
    by (simp add: validate_Field_def)
  also have "\<dots> = (Label f \<noteq> [] \<and> fieldTypeValidator (Type f) \<and> Name f \<noteq> []
                        \<and> list_all is_alnum (Name f))"
    using fieldTypeValidator_Nil by (cases "Type f = []") (simp_all add: alphanum_def)
  also have "\<dots> = (\<not> invalid_Field f)"
    unfolding invalid_Field_def fieldTypeValidator_iff [symmetric] by blast
  finally show ?thesis .
qed

lemma dive_empty: "(dive i fs = []) = (\<not> list_ex invalid_Field fs)"
  by (induction fs arbitrary: i) (simp_all add: validate_Field_empty)

lemma Validate_empty: "(Validate form = []) = (\<not> rejected form)"
  by (cases "Fields form") (simp_all add: Validate_def rejected_def the_Fields_def dive_empty)

text \<open>
  C3, amended. A form with an empty title, without a list of fields, or with a field whose
  label is empty, whose type is outside the enumeration or whose name is empty or not
  alphanumeric, is answered 400 with the text of the validation failures, and the world is
  as it was: no directory, no \<open>form.json\<close>, no call to the file system; the same holds
  behind the gate, whatever the header. A list of fields that is present and empty is not
  among these forms.
\<close>

theorem save_form_rejects:
  "rejected form \<Longrightarrow>
     save_form L now (Some form) w = ((400, message (Error_text (Validate form))), w)
     \<and> snd (serve L conf ks r \<lparr>x_client_key = hdr, target = SaveForm (Some form)\<rparr> w) = w"
proof -
  assume "rejected form"
  then have "Validate form \<noteq> []" by (simp add: Validate_empty)
  then obtain e es where v: "Validate form = e # es" by (cases "Validate form") simp_all
  have s: "save_form L t (Some form) w = ((400, message (Error_text (Validate form))), w)" for t
    by (simp add: save_form_def v)
  show ?thesis
    by (simp add: s serve_def clientKeyMiddleware_def Let_def)
qed

theorem save_form_rejects_witness:
  "rejected password_form
   \<and> save_form (demo_libs []) 1700000000123 (Some password_form) no_files
       = ((400, message (Error_text (Validate password_form))), no_files)
   \<and> snd (serve (demo_libs []) (APP demo_conf) [''api-key-1'', ''api-key-2''] demo_run
             \<lparr>x_client_key = Some ''api-key-1'', target = SaveForm (Some password_form)\<rparr> no_files)
       = no_files"
proof -
  have h: "rejected password_form"
    by (simp add: rejected_def password_form_def the_Fields_def invalid_Field_def)
  show ?thesis
    using h save_form_rejects [OF h, of "demo_libs []" 1700000000123 no_files "APP demo_conf"
        "[''api-key-1'', ''api-key-2'']" demo_run "Some ''api-key-1''"]
    by simp
qed

text \<open>
  C3, as stated, at the form \<open>{"title": "Contact", "fields": []}\<close>: the specification
  counts it as invalid, yet \<open>required\<close> holds of the empty slice, \<open>dive\<close> finds no element
  to check, and \<open>save-form\<close> answers 200 and writes \<open>form.json\<close>.
\<close>

theorem empty_fields_saved:
  "spec_invalid empty_form
   \<and> fst (save_form (demo_libs []) 1700000000123 (Some empty_form) no_files)
       = (200, JSON_map [(''message'', ''Form saved successfully''),
                         (''path'', ''form-build/1700000000123/form.json'')])
   \<and> nodes (snd (save_form (demo_libs []) 1700000000123 (Some empty_form) no_files))
        [''form-build'', ''1700000000123'', ''form.json'']
       = Some (File (''{'' @ [nl] @ ''  '' @ [dq] @ ''title'' @ [dq] @ '': '' @ [dq] @ ''Contact''
                     @ [dq] @ '','' @ [nl] @ ''  '' @ [dq] @ ''fields'' @ [dq] @ '': []'' @ [nl]
                     @ ''}'' @ [nl]))"
  by (simp add: spec_invalid_def the_Fields_def empty_form_def save_form_def Validate_def
        Sprintf_d_def nat_decimal.simps digit_char_def no_files_def Form_json_def
        demo_defs char_defs path_defs fs_defs Let_def)

section \<open>Saving a form and reading it back\<close>

lemmas path_simps = Join_dir [simplified] Join_file [simplified] Join_three [simplified]
  key_dir [simplified] key_file [simplified] Join_url [simplified]

lemma node_at_1: "c \<noteq> ''..'' \<Longrightarrow> c \<noteq> ''/'' \<Longrightarrow> node_at w [c] = nodes w [c]"
  by (simp add: node_at_def)

lemma node_at_more: "c \<noteq> ''..'' \<Longrightarrow> node_at w (c # d # ds) = nodes w (c # d # ds)"
  by (simp add: node_at_def)

lemma node_at_Nil: "node_at w [] = Some Dir"
  by (simp add: node_at_def)

text \<open>What a successful \<open>save-form\<close> has done.\<close>

lemma save_form_200:
  assumes "save_form L now (Some form) w = ((200, b), w')"
  shows "b = JSON_map [(''message'', ''Form saved successfully''),
                       (''path'', ''form-build/'' @ Sprintf_d now @ ''/form.json'')]
    \<and> Validate form = []
    \<and> \<not> is_File (nodes w [''form-build''])
    \<and> \<not> is_File (nodes w [''form-build'', Sprintf_d now])
    \<and> nodes w [''form-build'', Sprintf_d now, ''form.json''] \<noteq> Some Dir
    \<and> nodes w' = (nodes w)
         ([''form-build''] \<mapsto> Dir, [''form-build'', Sprintf_d now] \<mapsto> Dir,
          [''form-build'', Sprintf_d now, ''form.json'']
            \<mapsto> File (json_Encode L [] ''  '' (Form_json form)))
    \<and> calls w' = calls w @
         [SysMkdirAll (''form-build/'' @ Sprintf_d now),
          SysCreate (''form-build/'' @ Sprintf_d now @ ''/form.json''),
          SysWrite [''form-build'', Sprintf_d now, ''form.json'']
            (json_Encode L [] ''  '' (Form_json form))]"
  using assms Sprintf_d_simple [of now]
  by (auto simp: save_form_def Let_def path_simps os_MkdirAll_def os_Create_def open_write_def
        file_Write_def sys_def node_at_1 node_at_more node_at_Nil is_File_def
        split: list.splits option.splits node.splits sum.splits prod.splits if_splits)

text \<open>
  A valid form is saved whenever no regular file stands in the place of one of the two
  directories and no directory in the place of \<open>form.json\<close>: directories that are there
  already are no obstacle.
\<close>

lemma save_form_succeeds:
  assumes "Validate form = []"
    and "nodes w [''form-build''] \<in> {None, Some Dir}"
    and "nodes w [''form-build'', Sprintf_d now] \<in> {None, Some Dir}"
    and "nodes w [''form-build'', Sprintf_d now, ''form.json''] \<noteq> Some Dir"
  shows "fst (save_form L now (Some form) w)
           = (200, JSON_map [(''message'', ''Form saved successfully''),
                             (''path'', ''form-build/'' @ Sprintf_d now @ ''/form.json'')])"
  using assms Sprintf_d_simple [of now]
  by (auto simp: save_form_def Let_def path_simps os_MkdirAll_def os_Create_def open_write_def
        file_Write_def sys_def node_at_1 node_at_more node_at_Nil is_File_def
        split: list.splits option.splits node.splits sum.splits prod.splits if_splits)

text \<open>
  C6. When \<open>save-form\<close> answers 200, the identifier is the decimal text of the
  millisecond clock (an optional minus sign and the digits of its value, without leading
  zeros), the answer names \<open>form-build/<id>/form.json\<close>, and the disk differs
  from the one before in three entries only: \<open>form-build\<close> and \<open>form-build/<id>\<close> are
  directories, and \<open>form.json\<close> in the latter holds what the encoder writes, with an empty
  prefix and an indent of two spaces, for the JSON object whose members are the title of
  the form and the array of its fields, each an object of label, type, name and
  placeholder. Directories that were there already are no obstacle (only a regular file
  in their place is). The calls made are \<open>MkdirAll\<close>, \<open>Create\<close> and one write.
\<close>

theorem save_form_creates:
  assumes s: "save_form L now (Some form) w = ((200, b), w')"
  shows "(let ID = Sprintf_d now;
              bytes = json_Encode L [] ''  ''
                (JObject
                   [(''title'', JString (Title form)),
                    (''fields'',
                       JArray (map (\<lambda>f. JObject [(''label'', JString (Label f)),
                                                  (''type'', JString (Type f)),
                                                  (''name'', JString (Name f)),
                                                  (''placeholder'', JString (Placeholder f))])
                                 (the_Fields form)))])
          in decimal_of now ID
           \<and> Fields form \<noteq> None
           \<and> b = JSON_map [(''message'', ''Form saved successfully''),
                            (''path'', ''form-build/'' @ ID @ ''/form.json'')]
           \<and> nodes w' [''form-build''] = Some Dir
           \<and> nodes w' [''form-build'', ID] = Some Dir
           \<and> nodes w' [''form-build'', ID, ''form.json''] = Some (File bytes)
           \<and> (\<forall>k. k \<noteq> [''form-build''] \<and> k \<noteq> [''form-build'', ID]
                    \<and> k \<noteq> [''form-build'', ID, ''form.json'']
                  \<longrightarrow> nodes w' k = nodes w k)
           \<and> nodes w [''form-build''] \<in> {None, Some Dir}
           \<and> nodes w [''form-build'', ID] \<in> {None, Some Dir}
           \<and> calls w' = calls w @
                [SysMkdirAll (''form-build/'' @ ID),
                 SysCreate (''form-build/'' @ ID @ ''/form.json''),
                 SysWrite [''form-build'', ID, ''form.json''] bytes])"
proof -
  note f = save_form_200 [OF s]
  from f have v: "Validate form = []" by simp
  have t: "decimal_of now (Sprintf_d now)"
  proof (cases "now < 0")
    case True
    then show ?thesis
      using numeral_of_nat_decimal [of "nat (- now)"] by (simp add: decimal_of_def Sprintf_d_def)
  next
    case False
    then show ?thesis
      using numeral_of_nat_decimal [of "nat now"] by (simp add: decimal_of_def Sprintf_d_def)
  qed
  have j: "Fields form \<noteq> None"
    using v by (cases "Fields form") (simp_all add: Validate_def)
  have d: "x \<in> {None, Some Dir}" if "\<not> is_File x" for x
    using that by (cases x) (auto simp: is_File_def split: node.splits)
  from f have n: "nodes w' = (nodes w)
         ([''form-build''] \<mapsto> Dir, [''form-build'', Sprintf_d now] \<mapsto> Dir,
          [''form-build'', Sprintf_d now, ''form.json'']
            \<mapsto> File (json_Encode L [] ''  '' (Form_json form)))"
    by simp
  have e: "Form_json form
         = JObject [(''title'', JString (Title form)),
                    (''fields'',
                       JArray (map (\<lambda>f. JObject [(''label'', JString (Label f)),
                                                  (''type'', JString (Type f)),
                                                  (''name'', JString (Name f)),
                                                  (''placeholder'', JString (Placeholder f))])
                                 (the_Fields form)))]"
    using j by (cases "Fields form") (simp_all add: Form_json_def Field_json_def the_Fields_def)
  show ?thesis
    unfolding Let_def e [symmetric]
    using f j t d [of "nodes w [''form-build'']"] d [of "nodes w [''form-build'', Sprintf_d now]"]
    by (simp add: n)
qed

lemma demo_libs_sel:
  "json_parse (demo_libs docs) = demo_parse docs"
  "json_Marshal (demo_libs docs) = compact"
  "json_Encode (demo_libs docs) = demo_Encode"
  "template_Parse (demo_libs docs) = demo_template_Parse"
  by (simp_all add: demo_libs_def)

lemma clock_name: "Sprintf_d 1700000000123 = ''1700000000123''"
  by (simp add: Sprintf_d_def nat_decimal.simps digit_char_def)

lemma contact_form_valid: "Validate contact_form = []"
  by (simp add: Validate_def validate_Field_def contact_form_def fieldTypeValidator_def
        validFieldTypes_def alphanum_def is_alnum_def)

lemma save_contact_form:
  "fst (save_form (demo_libs docs) 1700000000123 (Some contact_form) installed)
     = (200, JSON_map [(''message'', ''Form saved successfully''),
                       (''path'', ''form-build/1700000000123/form.json'')])"
  by (simp add: save_form_def contact_form_valid clock_name installed_def path_defs fs_defs
        Let_def)

lemma contact_form_bytes:
  "demo_Encode [] ''  ''
     (JObject [(''title'', JString (Title contact_form)),
               (''fields'',
                  JArray (map (\<lambda>f. JObject [(''label'', JString (Label f)),
                                             (''type'', JString (Type f)),
                                             (''name'', JString (Name f)),
                                             (''placeholder'', JString (Placeholder f))])
                            (the_Fields contact_form)))])
     = contact_form_text"
  by (simp add: contact_form_def the_Fields_def contact_form_text_def demo_Encode_def
        quote_def line_break_def char_defs)

theorem save_form_creates_witness:
  "fst (save_form (demo_libs []) 1700000000123 (Some contact_form) installed)
     = (200, JSON_map [(''message'', ''Form saved successfully''),
                       (''path'', ''form-build/1700000000123/form.json'')])
   \<and> decimal_of 1700000000123 ''1700000000123''
   \<and> fst (save_form (demo_libs []) 1700000000124 (Some contact_form) installed)
       = (200, JSON_map [(''message'', ''Form saved successfully''),
                         (''path'', ''form-build/1700000000124/form.json'')])
   \<and> nodes installed [''form-build''] = Some Dir
   \<and> nodes installed [''form-build'', ''1700000000123''] = None
   \<and> nodes (snd (save_form (demo_libs []) 1700000000123 (Some contact_form) installed))
        [''form-build''] = Some Dir
   \<and> nodes (snd (save_form (demo_libs []) 1700000000123 (Some contact_form) installed))
        [''form-build'', ''1700000000123''] = Some Dir
   \<and> nodes (snd (save_form (demo_libs []) 1700000000123 (Some contact_form) installed))
        [''form-build'', ''1700000000123'', ''form.json'']
       = Some (File contact_form_text)"
proof -
  let ?s = "save_form (demo_libs []) 1700000000123 (Some contact_form) installed"
  have "fst ?s = (200, snd (fst ?s))" by (simp add: save_contact_form)
  then have h: "?s = ((200, snd (fst ?s)), snd ?s)" by (simp add: prod_eq_iff)
  have d: "nodes installed [''form-build''] = Some Dir"
    "nodes installed [''form-build'', ''1700000000123''] = None"
    by (simp_all add: installed_def)
  have later: "fst (save_form (demo_libs []) 1700000000124 (Some contact_form) installed)
       = (200, JSON_map [(''message'', ''Form saved successfully''),
                         (''path'', ''form-build/1700000000124/form.json'')])"
    by (simp add: save_form_def contact_form_valid Sprintf_d_examples installed_def path_defs
          fs_defs Let_def)
  from save_form_creates [OF h] d later show ?thesis
    unfolding Let_def demo_libs_sel contact_form_bytes clock_name
    by (simp add: save_contact_form)
qed

lemma walk_nodes: "nodes w1 = nodes w2 \<Longrightarrow> walk w1 pre cs = walk w2 pre cs"
  by (induction cs arbitrary: pre) (simp_all add: node_at_def split: option.splits node.splits)

lemma nodes_sys: "nodes (sys c w) = nodes w"
  by (simp add: sys_def)

lemma walk_sys: "walk (sys c w) pre cs = walk w pre cs"
  by (rule walk_nodes) (rule nodes_sys)

lemma makeHTML_nodes:
  "nodes w1 = nodes w2 \<Longrightarrow> fst (makeHTML L w1 p d) = fst (makeHTML L w2 p d)"
  by (simp add: makeHTML_def os_ReadFile_def walk_nodes [of w1 w2]
        split: sum.splits node.splits option.splits)

lemma rendered_nodes:
  "nodes w1 = nodes w2 \<Longrightarrow> rendered L appConf ID doc w1 = rendered L appConf ID doc w2"
  by (simp add: rendered_def makeHTML_nodes [of w1 w2])

lemma Field_json_inj: "Field_json f = Field_json g \<Longrightarrow> f = g"
  by (cases f, cases g) (simp add: Field_json_def)

lemma map_Field_json_inj: "map Field_json fs = map Field_json gs \<Longrightarrow> fs = gs"
proof (induction fs arbitrary: gs)
  case Nil
  then show ?case by simp
next
  case (Cons f fs)
  then obtain g gs' where g: "gs = g # gs'" by (cases gs) simp_all
  with Cons show ?case by (simp add: Field_json_inj)
qed

lemma Form_json_inj: "Form_json f = Form_json g \<Longrightarrow> f = g"
proof -
  assume e: "Form_json f = Form_json g"
  then have t: "Title f = Title g" by (simp add: Form_json_def)
  from e have "Fields f = Fields g"
    by (cases "Fields f"; cases "Fields g") (simp_all add: Form_json_def map_Field_json_inj)
  with t show ?thesis by (cases f, cases g) simp
qed

text \<open>Reading a stored file: the handler's answer in terms of the decoded document.\<close>

lemma get_form_stored:
  assumes "simple_component ID"
    and "nodes w [''form-build''] = Some Dir"
    and "nodes w [''form-build'', ID] = Some Dir"
    and "nodes w [''form-build'', ID, ''form.json''] = Some (File text)"
  shows "fst (os_ReadFile w (filepath_Join [''form-build'', ID, ''form.json''])) = Inr text"
    and "fst (loadJSON L w (filepath_Join [''form-build'', ID, ''form.json'']))
           = (case json_Unmarshal_map L text of Inl e \<Rightarrow> Inl (JSONError e) | Inr doc \<Rightarrow> Inr doc)"
    and "json_Unmarshal_map L text = Inr doc \<Longrightarrow>
           fst (get_form L appConf ID w) = rendered L appConf ID doc w"
proof -
  have ne: "ID \<noteq> []" using assms(1) by (simp add: simple_component_def)
  have d: "ID \<noteq> ''..''" using assms(1) by (simp add: simple_component_def)
  have wk: "walk w [] [''form-build'', ID, ''form.json''] = Inr (File text)"
    using assms by (simp add: node_at_1 node_at_more node_at_Nil)
  show r: "fst (os_ReadFile w (filepath_Join [''form-build'', ID, ''form.json''])) = Inr text"
    using assms(1) wk by (simp add: os_ReadFile_def path_simps del: walk.simps)
  show "fst (loadJSON L w (filepath_Join [''form-build'', ID, ''form.json'']))
           = (case json_Unmarshal_map L text of Inl e \<Rightarrow> Inl (JSONError e) | Inr doc \<Rightarrow> Inr doc)"
    using assms(1) wk
    by (simp add: loadJSON_def os_ReadFile_def path_simps del: walk.simps split: sum.splits)
  assume u: "json_Unmarshal_map L text = Inr doc"
  let ?p = "filepath_Join [''form-build'', ID, ''form.json'']"
  let ?w2 = "sys (SysReadFile ?p) (sys (SysStat ?p) w)"
  have n: "nodes ?w2 = nodes w" by (simp add: nodes_sys)
  have "fst (get_form L appConf ID w) = rendered L appConf ID doc ?w2"
    using assms(1) wk u ne
    by (simp add: get_form_def fileExists_def os_Stat_def os_IsNotExist_def loadJSON_def
          os_ReadFile_def path_simps walk_sys rendered_def Let_def del: walk.simps
          split: prod.splits sum.splits)
  then show "fst (get_form L appConf ID w) = rendered L appConf ID doc w"
    by (simp add: rendered_nodes [OF n])
qed
lemma Unmarshal_Form_json:
  "json_parse L text = Some (Form_json form) \<Longrightarrow> json_Unmarshal_map L text = Inr (Form_json form)"
  by (simp add: json_Unmarshal_map_def Form_json_def)

lemma get_form_absent:
  assumes "ID \<noteq> []"
    and "fst (os_Stat w (filepath_Join [''form-build'', ID, ''form.json''])) = Inl ENOENT"
  shows "get_form L appConf ID w
           = ((404, failedNotfoundMsg),
              sys (SysStat (filepath_Join [''form-build'', ID, ''form.json''])) w)"
  using assms
  by (simp add: get_form_def fileExists_def os_Stat_def os_IsNotExist_def Let_def
        del: walk.simps)

text \<open>
  Reading back. After \<open>save-form\<close> has answered 200, the file that \<open>get-form\<close> reads for the
  generated identifier holds exactly the bytes the encoder wrote for the form; when the
  JSON library reads those bytes back as the document of the form, \<open>loadJSON\<close> returns that
  document and \<open>get-form\<close> answers with its rendering (never 400 or 404). The document
  determines the form. For a non-empty identifier whose \<open>form.json\<close> \<open>os.Stat\<close> reports as
  not existing, \<open>get-form\<close> answers 404 after that one call.
\<close>

lemma save_then_get:
  "(save_form L now (Some form) w = ((200, b), w') \<longrightarrow>
      fst (os_ReadFile w' (filepath_Join [''form-build'', Sprintf_d now, ''form.json'']))
        = Inr (json_Encode L [] ''  '' (Form_json form))
      \<and> (json_parse L (json_Encode L [] ''  '' (Form_json form)) = Some (Form_json form) \<longrightarrow>
            fst (loadJSON L w' (filepath_Join [''form-build'', Sprintf_d now, ''form.json'']))
              = Inr (Form_json form)
            \<and> fst (get_form L appConf (Sprintf_d now) w')
                = rendered L appConf (Sprintf_d now) (Form_json form) w'))
   \<and> (Form_json form = Form_json form' \<longrightarrow> form = form')
   \<and> (ID \<noteq> [] \<and> fst (os_Stat w (filepath_Join [''form-build'', ID, ''form.json''])) = Inl ENOENT
        \<longrightarrow> get_form L appConf ID w
              = ((404, failedNotfoundMsg),
                 sys (SysStat (filepath_Join [''form-build'', ID, ''form.json''])) w))"
proof (intro conjI impI)
  assume s: "save_form L now (Some form) w = ((200, b), w')"
  let ?text = "json_Encode L [] ''  '' (Form_json form)"
  have n: "nodes w' = (nodes w)
         ([''form-build''] \<mapsto> Dir, [''form-build'', Sprintf_d now] \<mapsto> Dir,
          [''form-build'', Sprintf_d now, ''form.json''] \<mapsto> File ?text)"
    using save_form_200 [OF s] by simp
  have st: "nodes w' [''form-build''] = Some Dir"
    "nodes w' [''form-build'', Sprintf_d now] = Some Dir"
    "nodes w' [''form-build'', Sprintf_d now, ''form.json''] = Some (File ?text)"
    by (simp_all add: n)
  note g = get_form_stored [OF Sprintf_d_simple st]
  show "fst (os_ReadFile w' (filepath_Join [''form-build'', Sprintf_d now, ''form.json'']))
          = Inr ?text"
    by (rule g(1))
  assume p: "json_parse L ?text = Some (Form_json form)"
  show "fst (loadJSON L w' (filepath_Join [''form-build'', Sprintf_d now, ''form.json'']))
          = Inr (Form_json form)"
    by (simp add: g(2) Unmarshal_Form_json [OF p])
  show "fst (get_form L appConf (Sprintf_d now) w')
          = rendered L appConf (Sprintf_d now) (Form_json form) w'"
    by (rule g(3)) (rule Unmarshal_Form_json [OF p])
next
  assume "Form_json form = Form_json form'"
  then show "form = form'" by (rule Form_json_inj)
next
  assume "ID \<noteq> [] \<and> fst (os_Stat w (filepath_Join [''form-build'', ID, ''form.json''])) = Inl ENOENT"
  then show "get_form L appConf ID w
              = ((404, failedNotfoundMsg),
                 sys (SysStat (filepath_Join [''form-build'', ID, ''form.json''])) w)"
    by (simp add: get_form_absent)
qed

lemma parse_contact_form:
  "json_parse (demo_libs [Form_json contact_form])
     (json_Encode (demo_libs [Form_json contact_form]) [] ''  '' (Form_json contact_form))
     = Some (Form_json contact_form)"
  by (simp add: demo_libs_sel demo_parse_def)

lemma stat_42:
  "fst (os_Stat installed (filepath_Join [''form-build'', ''42'', ''form.json''])) = Inl ENOENT"
  by (simp add: os_Stat_def installed_def path_defs node_at_def)

lemma save_then_get_contact_form:
  "fst (fst (save_form (demo_libs [Form_json contact_form]) 1700000000123 (Some contact_form)
               installed)) = 200
   \<and> fst (loadJSON (demo_libs [Form_json contact_form])
            (snd (save_form (demo_libs [Form_json contact_form]) 1700000000123
                    (Some contact_form) installed))
            ''form-build/1700000000123/form.json'')
       = Inr (Form_json contact_form)
   \<and> fst (get_form (demo_libs [Form_json contact_form]) (APP demo_conf) ''1700000000123''
            (snd (save_form (demo_libs [Form_json contact_form]) 1700000000123
                    (Some contact_form) installed)))
       = rendered (demo_libs [Form_json contact_form]) (APP demo_conf) ''1700000000123''
           (Form_json contact_form)
           (snd (save_form (demo_libs [Form_json contact_form]) 1700000000123
                   (Some contact_form) installed))
   \<and> get_form (demo_libs [Form_json contact_form]) (APP demo_conf) ''42'' installed
       = ((404, failedNotfoundMsg), sys (SysStat ''form-build/42/form.json'') installed)"
proof -
  let ?L = "demo_libs [Form_json contact_form]"
  let ?s = "save_form ?L 1700000000123 (Some contact_form) installed"
  have "fst ?s = (200, snd (fst ?s))" by (simp add: save_contact_form)
  then have h: "?s = ((200, snd (fst ?s)), snd ?s)" by (simp add: prod_eq_iff)
  have j: "filepath_Join [''form-build'', ''1700000000123'', ''form.json'']
             = ''form-build/1700000000123/form.json''"
    "filepath_Join [''form-build'', ''42'', ''form.json''] = ''form-build/42/form.json''"
    by (simp_all add: path_defs)
  have ne: "''42'' \<noteq> ([]::string)" by simp
  note t = save_then_get [of ?L 1700000000123 contact_form installed "snd (fst ?s)" "snd ?s"
      "APP demo_conf" contact_form "''42''"]
  from t h parse_contact_form stat_42 ne show ?thesis
    by (simp add: clock_name j save_contact_form)
qed

text \<open>
  C4 on the code. The name \<open>form.html\<close> is the decimal text of no clock value, so no create
  produces it as an identifier, and the disk that holds the template alone has no entry
  at \<open>form-build/form.html/form.json\<close> and none below \<open>form-build\<close> other than the template.
  Read with that identifier does not answer 404: \<open>form-build/form.html\<close> being a regular
  file, \<open>os.Stat\<close> fails with \<open>ENOTDIR\<close>, which \<open>os.IsNotExist\<close> does not recognise, so
  \<open>fileExists\<close> answers true; \<open>loadJSON\<close> then fails to read and the answer is
  500 \<open>Internal Server Error\<close>.
\<close>

theorem template_name_as_ID:
  "Sprintf_d now \<noteq> ''form.html''
   \<and> nodes installed [''form-build'', ''form.html'', ''form.json''] = None
   \<and> dom (nodes installed) = {[''form-build''], [''form-build'', ''form.html'']}
   \<and> filepath_Join [''form-build'', ''form.html'', ''form.json'']
       = ''form-build/form.html/form.json''
   \<and> fst (os_Stat installed ''form-build/form.html/form.json'') = Inl ENOTDIR
   \<and> \<not> os_IsNotExist (Some ENOTDIR)
   \<and> fst (fileExists installed ''form-build/form.html/form.json'')
   \<and> fst (loadJSON L (sys (SysStat ''form-build/form.html/form.json'') installed)
            ''form-build/form.html/form.json'') = Inl (IOError ENOTDIR)
   \<and> get_form L appConf ''form.html'' installed
       = ((500, JSON_string ''Internal Server Error''),
          sys (SysReadFile ''form-build/form.html/form.json'')
            (sys (SysStat ''form-build/form.html/form.json'') installed))"
proof -
  have "Sprintf_d now \<noteq> ''form.html''" by (rule Sprintf_d_not_template)
  moreover have "dom (nodes installed) = {[''form-build''], [''form-build'', ''form.html'']}"
    by (simp add: installed_def insert_commute)
  ultimately show ?thesis
    by (simp add: get_form_def installed_def loadJSON_def path_defs fs_defs Let_def
          InternalServerError_def)
qed

section \<open>The rendered page\<close>

lemma os_ReadFile_sys: "fst (os_ReadFile (sys c w) p) = fst (os_ReadFile w p)"
  by (simp add: os_ReadFile_def walk_sys split: sum.splits node.splits)

lemma os_ReadFile_world: "snd (os_ReadFile w p) = sys (SysReadFile p) w"
  by (simp add: os_ReadFile_def split: sum.splits node.splits)

lemma loadJSON_Inr:
  assumes "loadJSON L w p = (Inr doc, w2)"
  shows "\<exists>stored. fst (os_ReadFile w p) = Inr stored \<and> json_Unmarshal_map L stored = Inr doc
                \<and> nodes w2 = nodes w"
proof (cases "os_ReadFile w p")
  case (Pair r w1)
  have w1: "w1 = sys (SysReadFile p) w" using os_ReadFile_world [of w p] Pair by simp
  show ?thesis
    using assms Pair w1
    by (cases r; cases "json_Unmarshal_map L (projr r)")
       (auto simp: loadJSON_def nodes_sys split: sum.splits)
qed

lemma makeHTML_Inr:
  assumes "fst (makeHTML L w p data) = Inr html"
  shows "\<exists>text t. fst (os_ReadFile w p) = Inr text \<and> template_Parse L text = Some t
                  \<and> template_Execute t data = Inr html"
proof (cases "os_ReadFile w p")
  case (Pair r w1)
  show ?thesis
    using assms Pair
    by (cases r; cases "template_Parse L (projr r)")
       (auto simp: makeHTML_def split: sum.splits)
qed

lemma fileExists_world: "snd (fileExists w p) = sys (SysStat p) w"
  by (simp add: fileExists_def os_Stat_def split: sum.splits)

text \<open>A successful \<open>get-form\<close>: the file was read and decoded and the template executed.\<close>

lemma get_form_200:
  assumes "get_form L appConf ID w = ((200, HTML html), w')"
  shows "\<exists>stored doc.
           fst (os_ReadFile w (filepath_Join [''form-build'', ID, ''form.json''])) = Inr stored
           \<and> json_Unmarshal_map L stored = Inr doc
           \<and> rendered L appConf ID doc w = (200, HTML html)"
proof -
  let ?p = "filepath_Join [''form-build'', ID, ''form.json'']"
  let ?w1 = "sys (SysStat ?p) w"
  have ne: "ID \<noteq> []"
    using assms by (auto simp: get_form_def failedMissingMandatoryParameterMsg_def message_def)
  have fe: "fileExists w ?p = (fst (fileExists w ?p), ?w1)"
    using fileExists_world [of w ?p] by (simp add: prod_eq_iff)
  obtain r w2 where lj: "loadJSON L ?w1 ?p = (r, w2)" by (cases "loadJSON L ?w1 ?p")
  have ex: "fst (fileExists w ?p)"
    using assms ne fe
    by (cases "fst (fileExists w ?p)")
       (auto simp: get_form_def Let_def failedNotfoundMsg_def message_def)
  from assms ne ex fe lj obtain doc where r: "r = Inr doc"
    by (cases r) (auto simp: get_form_def Let_def InternalServerError_def)
  from loadJSON_Inr [OF lj [unfolded r]] obtain stored where
    f: "fst (os_ReadFile ?w1 ?p) = Inr stored" "json_Unmarshal_map L stored = Inr doc"
    and n2: "nodes w2 = nodes ?w1"
    by blast
  have n: "nodes w2 = nodes w" using n2 by (simp add: nodes_sys)
  have "rendered L appConf ID doc w2 = (200, HTML html)"
    using assms ne ex fe lj r
    by (cases "makeHTML L w2 (filepath_Join [''form-build'', ''form.html''])
                 [''data'' \<mapsto> json_Marshal L doc,
                  ''url'' \<mapsto> Domain appConf @ filepath_Join [''/api/submit-form/'', ID],
                  ''clientXToken'' \<mapsto> ''x.y.z'']")
       (auto simp: get_form_def Let_def rendered_def InternalServerError_def split: sum.splits)
  then have "rendered L appConf ID doc w = (200, HTML html)"
    by (simp add: rendered_nodes [OF n])
  with f show ?thesis by (auto simp: os_ReadFile_sys)
qed

text \<open>
  C8, as stated, at the identifier \<open>.\<close> on a disk that holds \<open>form-build/form.json\<close>: the
  request succeeds, and the address in the page is the domain followed by
  \<open>/api/submit-form\<close>, not by \<open>/api/submit-form/.\<close>, because \<open>filepath.Join\<close> cleans the
  path it builds.
\<close>

theorem dot_ID_address:
  "fst (get_form (demo_libs [Form_json contact_form]) (APP demo_conf) ''.'' stray_form)
     = (200, HTML (''<script>data = `'' @ compact (Form_json contact_form) @ ''`; action = ''
                   @ [dq] @ ''http://0.0.0.0:8080/api/submit-form'' @ [dq] @ ''; token = ''
                   @ [dq] @ ''x.y.z'' @ [dq] @ '';</script>''))
   \<and> Domain (APP demo_conf) @ ''/api/submit-form/'' @ ''.''
       \<noteq> ''http://0.0.0.0:8080/api/submit-form''"
  by (simp add: get_form_def stray_form_def demo_conf_def demo_libs_sel demo_parse_def
        json_Unmarshal_map_def Form_json_def loadJSON_def makeHTML_def template_Execute_def
        demo_template_Parse_def demo_template_def action_piece_def trim_def is_alnum_def
        path_defs fs_defs Let_def dq_def)

text \<open>
  C8, amended. \<open>form-build/form.html\<close> in the repository is literal text around three
  actions, \<open>{{ .data }}\<close>, \<open>{{ .url }}\<close> and \<open>{{ .clientXToken }}\<close>, in this order. With
  a template of that shape, the page of every successful \<open>get-form\<close> request is the
  literal text with three insertions: the decoded \<open>form.json\<close> of the identifier
  marshalled again, the configured domain followed by
  \<open>filepath.Join("/api/submit-form/", id)\<close>, and the fixed token \<open>x.y.z\<close>. For an
  identifier that is a single path component other than \<open>.\<close> and \<open>..\<close>, as every
  generated identifier is, the joined path is \<open>/api/submit-form/<id>\<close>.
\<close>

theorem get_form_renders:
  assumes "get_form L appConf ID w = ((200, HTML html), w')"
    and "fst (os_ReadFile w (filepath_Join [''form-build'', ''form.html''])) = Inr tmpl"
    and "template_Parse L tmpl
           = Some [Text a, Action ''data'', Text b, Action ''url'', Text c,
                   Action ''clientXToken'', Text d]"
  shows "(\<exists>stored doc.
            fst (os_ReadFile w (filepath_Join [''form-build'', ID, ''form.json''])) = Inr stored
            \<and> json_Unmarshal_map L stored = Inr doc
            \<and> html = a @ json_Marshal L doc @ b
                       @ Domain appConf @ filepath_Join [''/api/submit-form/'', ID] @ c
                       @ ''x.y.z'' @ d)
         \<and> (simple_component ID \<longrightarrow>
               filepath_Join [''/api/submit-form/'', ID] = ''/api/submit-form/'' @ ID)
         \<and> simple_component (Sprintf_d now)"
proof -
  let ?data = "[''data'' \<mapsto> json_Marshal L doc,
                ''url'' \<mapsto> Domain appConf @ filepath_Join [''/api/submit-form/'', ID],
                ''clientXToken'' \<mapsto> ''x.y.z'']"
  from get_form_200 [OF assms(1)] obtain stored doc where
    f: "fst (os_ReadFile w (filepath_Join [''form-build'', ID, ''form.json''])) = Inr stored"
       "json_Unmarshal_map L stored = Inr doc"
    and r: "rendered L appConf ID doc w = (200, HTML html)"
    by blast
  have "fst (makeHTML L w (filepath_Join [''form-build'', ''form.html''])
          [''data'' \<mapsto> json_Marshal L doc,
           ''url'' \<mapsto> Domain appConf @ filepath_Join [''/api/submit-form/'', ID],
           ''clientXToken'' \<mapsto> ''x.y.z'']) = Inr html"
    using r by (simp add: rendered_def InternalServerError_def split: sum.splits)
  from makeHTML_Inr [OF this] assms(2) assms(3)
  have "html = a @ json_Marshal L doc @ b
                 @ Domain appConf @ filepath_Join [''/api/submit-form/'', ID] @ c
                 @ ''x.y.z'' @ d"
    by (auto simp: template_Execute_def)
  with f show ?thesis
    using Sprintf_d_simple [of now] by (auto simp: path_simps)
qed
lemma get_saved:
  "fst (get_form (demo_libs [Form_json contact_form]) (APP demo_conf) ''1700000000123'' saved)
     = (200, HTML (''<script>data = `'' @ compact (Form_json contact_form) @ ''`; action = ''
                   @ [dq] @ ''http://0.0.0.0:8080/api/submit-form/1700000000123'' @ [dq]
                   @ ''; token = '' @ [dq] @ ''x.y.z'' @ [dq] @ '';</script>''))"
  by (simp add: get_form_def saved_def demo_conf_def demo_libs_sel demo_parse_def
        json_Unmarshal_map_def Form_json_def loadJSON_def makeHTML_def template_Execute_def
        demo_template_Parse_def demo_template_def action_piece_def trim_def is_alnum_def
        path_defs fs_defs Let_def dq_def)

lemma read_template:
  "fst (os_ReadFile saved (filepath_Join [''form-build'', ''form.html''])) = Inr demo_template"
  by (simp add: saved_def path_defs fs_defs)

lemma parse_template:
  "template_Parse (demo_libs docs) demo_template
     = Some [Text ''<script>data = `'', Action ''data'', Text (''`; action = '' @ [dq]),
             Action ''url'', Text ([dq] @ ''; token = '' @ [dq]), Action ''clientXToken'',
             Text ([dq] @ '';</script>'')]"
  by (simp add: demo_libs_sel demo_template_Parse_def demo_template_def action_piece_def
        trim_def is_alnum_def dq_def)

theorem get_form_renders_witness:
  "get_form (demo_libs [Form_json contact_form]) (APP demo_conf) ''1700000000123'' saved
     = ((200, HTML (''<script>data = `'' @ compact (Form_json contact_form) @ ''`; action = ''
                    @ [dq] @ ''http://0.0.0.0:8080/api/submit-form/1700000000123'' @ [dq]
                    @ ''; token = '' @ [dq] @ ''x.y.z'' @ [dq] @ '';</script>'')),
        snd (get_form (demo_libs [Form_json contact_form]) (APP demo_conf) ''1700000000123''
               saved))
   \<and> fst (os_ReadFile saved (filepath_Join [''form-build'', ''form.html''])) = Inr demo_template
   \<and> template_Parse (demo_libs [Form_json contact_form]) demo_template
       = Some [Text ''<script>data = `'', Action ''data'', Text (''`; action = '' @ [dq]),
               Action ''url'', Text ([dq] @ ''; token = '' @ [dq]), Action ''clientXToken'',
               Text ([dq] @ '';</script>'')]
   \<and> (\<exists>stored doc.
          fst (os_ReadFile saved
                 (filepath_Join [''form-build'', ''1700000000123'', ''form.json''])) = Inr stored
          \<and> json_Unmarshal_map (demo_libs [Form_json contact_form]) stored = Inr doc
          \<and> ''<script>data = `'' @ compact (Form_json contact_form) @ ''`; action = ''
               @ [dq] @ ''http://0.0.0.0:8080/api/submit-form/1700000000123'' @ [dq]
               @ ''; token = '' @ [dq] @ ''x.y.z'' @ [dq] @ '';</script>''
             = ''<script>data = `'' @ json_Marshal (demo_libs [Form_json contact_form]) doc
               @ (''`; action = '' @ [dq]) @ Domain (APP demo_conf)
               @ filepath_Join [''/api/submit-form/'', ''1700000000123'']
               @ ([dq] @ ''; token = '' @ [dq]) @ ''x.y.z'' @ ([dq] @ '';</script>''))
   \<and> filepath_Join [''/api/submit-form/'', ''1700000000123'']
       = ''/api/submit-form/'' @ ''1700000000123''"
proof -
  let ?L = "demo_libs [Form_json contact_form]"
  let ?g = "get_form ?L (APP demo_conf) ''1700000000123'' saved"
  let ?html = "''<script>data = `'' @ compact (Form_json contact_form) @ ''`; action = ''
                 @ [dq] @ ''http://0.0.0.0:8080/api/submit-form/1700000000123'' @ [dq]
                 @ ''; token = '' @ [dq] @ ''x.y.z'' @ [dq] @ '';</script>''"
  have h: "?g = ((200, HTML ?html), snd ?g)"
    using get_saved by (simp add: prod_eq_iff)
  have s: "simple_component ''1700000000123''" by (simp add: simple_component_def)
  note t = get_form_renders [OF h read_template parse_template, of 1700000000123]
  from t have c1: "\<exists>stored doc.
          fst (os_ReadFile saved
                 (filepath_Join [''form-build'', ''1700000000123'', ''form.json''])) = Inr stored
          \<and> json_Unmarshal_map ?L stored = Inr doc
          \<and> ?html = ''<script>data = `'' @ json_Marshal ?L doc
               @ (''`; action = '' @ [dq]) @ Domain (APP demo_conf)
               @ filepath_Join [''/api/submit-form/'', ''1700000000123'']
               @ ([dq] @ ''; token = '' @ [dq]) @ ''x.y.z'' @ ([dq] @ '';</script>'')"
    by (rule conjunct1)
  from t s have c2: "filepath_Join [''/api/submit-form/'', ''1700000000123'']
       = ''/api/submit-form/'' @ ''1700000000123''"
    by (elim conjE impE) assumption+
  show ?thesis
    by (intro conjI) (rule h read_template parse_template c1 c2)+
qed

section \<open>Recording submitted answers\<close>

lemmas submit_eval = submit_form_def alice_def bob_def no_files_def name_first_def
  email_first_def index_def sortByKey_def redirect_html_def message_def

lemma Join_csv:
  "simple_component b \<Longrightarrow>
     filepath_Join [''form-build/'' @ b, ''form_answer.csv'']
       = ''form-build/'' @ b @ ''/form_answer.csv''"
  by (simp add: simple_component_def path_defs split_sep_plain split_sep_slash Let_def)

lemma key_csv:
  "simple_component b \<Longrightarrow>
     path_key (''form-build/'' @ b @ ''/form_answer.csv'')
       = [''form-build'', b, ''form_answer.csv'']"
  by (simp add: simple_component_def path_defs split_sep_plain split_sep_slash Let_def)

lemma collect_values: "foldl (\<lambda>row key. row @ [index m key]) acc ks = acc @ map (index m) ks"
  by (induction ks arbitrary: acc) simp_all

text \<open>
  What a successful \<open>submit-form\<close> has done, for a form identifier that is a single path
  component: the two directories exist and the answer file has grown by one data row,
  preceded by a header row when the file was empty or absent. The header row is the keys
  in the order of the header loop, the data row the values in the order of the record
  loop; the reserved keys are in neither, being no keys of the map that is iterated.
\<close>

lemma submit_form_200:
  assumes "simple_component (index formData ''formID'')"
    and "range_order (answers formData) (sort_range rg)"
    and "submit_form rg (Some formData) w = ((200, b), w')"
  shows "b = HTML (redirect_html (index formData ''referrer''))
    \<and> nodes w' = (nodes w)
         ([''form-build''] \<mapsto> Dir, [''form-build'', index formData ''formID''] \<mapsto> Dir,
          [''form-build'', index formData ''formID'', ''form_answer.csv''] \<mapsto>
             File (old_rows (nodes w [''form-build'', index formData ''formID'',
                                      ''form_answer.csv''])
                   @ (if old_rows (nodes w [''form-build'', index formData ''formID'',
                                            ''form_answer.csv'']) = []
                      then csv_record (header_range rg) else [])
                   @ csv_record (map (index (answers formData)) (record_range rg))))"
  using assms(1) assms(3) sortByKey_id [OF assms(2)]
  by (auto simp: submit_form_def Let_def answers_def old_rows_def
        path_simps Join_csv [simplified] key_csv [simplified] os_MkdirAll_def
        os_OpenFile_append_def open_write_def file_Stat_Size_def csv_Write_def collect_keys
        collect_values
        file_Write_def sys_def node_at_1 node_at_more node_at_Nil
        split: option.splits node.splits sum.splits prod.splits if_splits)

lemma csv_record_not_empty: "csv_record row \<noteq> []"
  by (simp add: csv_record_def)

text \<open>
  Two successful submissions to a form without an answer file leave one header row and
  two data rows, each row in the order its own loop took.
\<close>

lemma two_submissions:
  assumes "simple_component ID"
    and "index m1 ''formID'' = ID" and "index m2 ''formID'' = ID"
    and "range_order (answers m1) (sort_range rg1)"
    and "range_order (answers m2) (sort_range rg2)"
    and "nodes w [''form-build'', ID, ''form_answer.csv''] = None"
    and "submit_form rg1 (Some m1) w = ((200, b1), w1)"
    and "submit_form rg2 (Some m2) w1 = ((200, b2), w2)"
  shows "nodes w2 [''form-build'', ID, ''form_answer.csv'']
           = Some (File (csv_record (header_range rg1)
                         @ csv_record (map (index (answers m1)) (record_range rg1))
                         @ csv_record (map (index (answers m2)) (record_range rg2))))"
proof -
  let ?k = "[''form-build'', ID, ''form_answer.csv'']"
  have s1: "simple_component (index m1 ''formID'')" and s2: "simple_component (index m2 ''formID'')"
    using assms(1-3) by simp_all
  have a: "nodes w1 ?k = Some (File (csv_record (header_range rg1)
                         @ csv_record (map (index (answers m1)) (record_range rg1))))"
    using submit_form_200 [OF s1 assms(4) assms(7)] assms(2) assms(6)
    by (simp add: old_rows_def)
  show ?thesis
    using submit_form_200 [OF s2 assms(5) assms(8)] assms(3)
    by (simp add: a old_rows_def csv_record_not_empty)
qed

text \<open>
  C1 on the code, at the submission of the specification's example to a form without
  answers, in a run where the loop that collects the headers visits \<open>name\<close> before
  \<open>email\<close>. That order is one a loop over the remaining map can take. The file then
  starts with the header \<open>name,email\<close>, while the sorted keys are \<open>email\<close>, \<open>name\<close>: the
  map returned by \<open>sortByKey\<close> does not keep the order in which it was filled.
\<close>

theorem header_in_loop_order:
  "range_order (alice(''formID'' := None, ''clientXToken'' := None, ''referrer'' := None))
     name_first
   \<and> sort name_first = email_first
   \<and> fst (submit_form \<lparr>sort_range = email_first, header_range = name_first,
                        record_range = name_first\<rparr> (Some alice) no_files)
       = (200, HTML (redirect_html ''http://x''))
   \<and> nodes (snd (submit_form \<lparr>sort_range = email_first, header_range = name_first,
                               record_range = name_first\<rparr> (Some alice) no_files))
        [''form-build'', ''123'', ''form_answer.csv'']
       = Some (File (''name,email'' @ [nl] @ ''Alice,a@b.com'' @ [nl]))"
proof -
  have "dom (alice(''formID'' := None, ''clientXToken'' := None, ''referrer'' := None))
          = {''name'', ''email''}"
    by (simp add: alice_def insert_commute)
  then have r: "range_order
      (alice(''formID'' := None, ''clientXToken'' := None, ''referrer'' := None)) name_first"
    by (simp add: range_order_def name_first_def)
  have s: "sort name_first = email_first"
    by (simp add: name_first_def email_first_def)
  have f: "fst (submit_form \<lparr>sort_range = email_first, header_range = name_first,
                        record_range = name_first\<rparr> (Some alice) no_files)
       = (200, HTML (redirect_html ''http://x''))"
    by (simp add: submit_form_def alice_def no_files_def index_def path_defs fs_defs
          csv_Write_def Let_def)
  have n: "nodes (snd (submit_form \<lparr>sort_range = email_first, header_range = name_first,
                               record_range = name_first\<rparr> (Some alice) no_files))
        [''form-build'', ''123'', ''form_answer.csv'']
       = Some (File (''name,email'' @ [nl] @ ''Alice,a@b.com'' @ [nl]))"
    by (simp add: submit_eval path_defs fs_defs csv_defs char_defs Let_def)
  from r s f n show ?thesis by (intro conjI)
qed

text \<open>
  C2 on the code, at two submissions to the same form without answers, with the same keys.
  In the first request the header loop visits \<open>email\<close> first and the record loop visits
  \<open>name\<close> first; in the second the record loop visits \<open>email\<close> first. Each order is one
  the loop can take. The file has one header row and two data rows, but the first data
  row lists the name under \<open>email\<close> and the address under \<open>name\<close>.
\<close>

theorem rows_in_loop_order:
  "range_order (alice(''formID'' := None, ''clientXToken'' := None, ''referrer'' := None))
     email_first
   \<and> range_order (alice(''formID'' := None, ''clientXToken'' := None, ''referrer'' := None))
       name_first
   \<and> range_order (bob(''formID'' := None, ''clientXToken'' := None, ''referrer'' := None))
       email_first
   \<and> nodes (snd (submit_form \<lparr>sort_range = name_first, header_range = email_first,
                               record_range = email_first\<rparr> (Some bob)
                  (snd (submit_form \<lparr>sort_range = name_first, header_range = email_first,
                                       record_range = name_first\<rparr> (Some alice) no_files))))
        [''form-build'', ''123'', ''form_answer.csv'']
       = Some (File (''email,name'' @ [nl] @ ''Alice,a@b.com'' @ [nl] @ ''b@c.org,Bob'' @ [nl]))"
proof -
  have a: "dom (alice(''formID'' := None, ''clientXToken'' := None, ''referrer'' := None))
          = {''name'', ''email''}"
    by (simp add: alice_def insert_commute)
  have b: "dom (bob(''formID'' := None, ''clientXToken'' := None, ''referrer'' := None))
          = {''name'', ''email''}"
    by (simp add: bob_def insert_commute)
  have r1: "range_order
      (alice(''formID'' := None, ''clientXToken'' := None, ''referrer'' := None)) email_first"
    using a by (simp add: range_order_def email_first_def insert_commute)
  have r2: "range_order
      (alice(''formID'' := None, ''clientXToken'' := None, ''referrer'' := None)) name_first"
    using a by (simp add: range_order_def name_first_def)
  have r3: "range_order
      (bob(''formID'' := None, ''clientXToken'' := None, ''referrer'' := None)) email_first"
    using b by (simp add: range_order_def email_first_def insert_commute)
  have n: "nodes (snd (submit_form \<lparr>sort_range = name_first, header_range = email_first,
                               record_range = email_first\<rparr> (Some bob)
                  (snd (submit_form \<lparr>sort_range = name_first, header_range = email_first,
                                       record_range = name_first\<rparr> (Some alice) no_files))))
        [''form-build'', ''123'', ''form_answer.csv'']
       = Some (File (''email,name'' @ [nl] @ ''Alice,a@b.com'' @ [nl] @ ''b@c.org,Bob'' @ [nl]))"
    by (simp add: submit_eval path_defs fs_defs csv_defs char_defs Let_def)
  from r1 r2 r3 n show ?thesis by (intro conjI)
qed

end
